theory Spec2Isabelle
  imports Main "HOL-Library.Multiset"
begin

section \<open>Session tokens\<close>

text \<open>
  The server signs and checks its tokens with the jsonwebtoken package. A token is modelled
  symbolically: the claims the server passed to \<open>jwt.sign\<close>, the issue and expiry instants
  (seconds) that \<open>jwt.sign\<close> adds for \<open>expiresIn: '24h'\<close>, and the key it was signed
  with. Nobody can build a token carrying a key they do not hold, so "the signature checks
  against the secret" is "the token's key is the secret".
\<close>

record claims =
  userId :: int
  username :: string
  role :: string
  examinerId :: "int option"
  schoolId :: "int option"

datatype jwt = Jwt (payload: claims) (iat: int) (exp: int) (key: string)

text \<open>
  The text of a header is a sequence of characters in which the compact serialisation of a
  token is one symbol \<open>Tok j\<close> (in reality a run of base64url characters and two dots,
  none of them a space).
\<close>

datatype hchar = Ch char | Tok jwt

type_synonym htext = "hchar list"

definition text_of :: "string \<Rightarrow> htext" where
  "text_of s = map Ch s"

datatype jwt_error = JsonWebTokenError | TokenExpiredError

definition jwt_sign :: "claims \<Rightarrow> string \<Rightarrow> int \<Rightarrow> jwt" where
  "jwt_sign c secret now = Jwt c now (now + 86400) secret"

definition jwt_verify :: "htext \<Rightarrow> string \<Rightarrow> int \<Rightarrow> jwt_error + claims" where
  "jwt_verify token secret now =
     (case token of
        [Tok j] \<Rightarrow>
          if key j \<noteq> secret then Inl JsonWebTokenError
          else if exp j \<le> now then Inl TokenExpiredError
          else Inr (payload j)
      | _ \<Rightarrow> Inl JsonWebTokenError)"

section \<open>The store\<close>

text \<open>
  The tables of the schema, one record per row, with the columns that the modelled queries
  read or that a constraint mentions. A nullable column is an \<open>option\<close>. A DATE is an
  integer that grows with the calendar (the sample rows use the number yyyymmdd). The
  password hash is symbolic: bcrypt reads at most the first 72 bytes of a password, and a
  hash matches exactly the passwords that agree on them.
\<close>

type_synonym date = int

datatype pwhash = Bcrypt string

definition bcrypt_hash :: "string \<Rightarrow> pwhash" where
  "bcrypt_hash password = Bcrypt (take 72 password)"

definition bcrypt_compare :: "string \<Rightarrow> pwhash \<Rightarrow> bool" where
  "bcrypt_compare password h = (h = Bcrypt (take 72 password))"

record school =
  school_id :: int
  school_name :: string
  location :: string

record subject =
  subject_id :: int
  subject_name :: string
  subject_code :: string

record examiner =
  examiner_id :: int
  examiner_name :: string
  examiner_school_id :: "int option"
  qualification :: "string option"
  examiner_subject_id :: "int option"
  contact_number :: "string option"
  examiner_email :: "string option"
  experience_years :: "int option"

record student =
  student_roll_number :: string
  student_name :: string
  student_school_id :: "int option"

record answer_sheet =
  sheet_id :: int
  answer_book_id :: string
  sheet_student_roll_number :: "string option"
  sheet_subject_id :: "int option"
  sheet_examiner_id :: "int option"
  marks_assigned :: "int option"
  evaluation_date :: "date option"
  remarks :: "string option"

record assignment =
  assignment_id :: int
  assignment_examiner_id :: "int option"
  assignment_school_id :: "int option"
  exam_date :: date
  exam_session :: string
  assignment_subject_id :: "int option"

record user =
  user_id :: int
  user_username :: string
  user_email :: string
  password_hash :: pwhash
  user_role :: string
  user_examiner_id :: "int option"
  user_school_id :: "int option"
  is_active :: bool
  last_login :: "int option"

text \<open>
  Each SERIAL column has a sequence; \<open>_seq\<close> is the last value it handed out. A sequence
  is not rolled back when the statement that drew from it fails.
\<close>

record database =
  users :: "user list"
  users_seq :: int
  schools :: "school list"
  subjects :: "subject list"
  examiners :: "examiner list"
  examiners_seq :: int
  students :: "student list"
  answer_sheets :: "answer_sheet list"
  invigilation_assignments :: "assignment list"
  assignments_seq :: int

datatype pg_error =
    numeric_value_out_of_range
  | invalid_datetime_format
  | string_data_right_truncation
  | not_null_violation
  | check_violation
  | unique_violation
  | foreign_key_violation

definition int4 :: "int option \<Rightarrow> bool" where
  "int4 v = (case v of None \<Rightarrow> True | Some n \<Rightarrow> - 2147483648 \<le> n \<and> n \<le> 2147483647)"

text \<open>
  Assigning a string to a \<open>VARCHAR(n)\<close> column: a string of more than \<open>n\<close> characters
  is refused unless the characters beyond the first \<open>n\<close> are all blanks, and then the
  first \<open>n\<close> are what is stored. \<open>varchar n v\<close> says that \<open>v\<close> is accepted; what is stored
  of an accepted string \<open>s\<close> is \<open>take n s\<close> (which is \<open>s\<close> when it fits).
\<close>

definition varchar :: "nat \<Rightarrow> string option \<Rightarrow> bool" where
  "varchar n v = (case v of None \<Rightarrow> True | Some s \<Rightarrow> list_all (\<lambda>c. c = CHR '' '') (drop n s))"

definition references :: "int option \<Rightarrow> int list \<Rightarrow> bool" where
  "references v ids = (case v of None \<Rightarrow> True | Some n \<Rightarrow> n \<in> set ids)"

text \<open>\<open>xs[n]\<close>: undefined out of range.\<close>

fun at :: "'a list \<Rightarrow> nat \<Rightarrow> 'a option" where
  "at [] n = None"
| "at (x # xs) 0 = Some x"
| "at (x # xs) (Suc n) = at xs n"

text \<open>The error of the first violated check, in the order the checks are listed.\<close>

fun first_error :: "(bool \<times> pg_error) list \<Rightarrow> pg_error option" where
  "first_error [] = None"
| "first_error ((ok, e) # cs) = (if ok then first_error cs else Some e)"

subsection \<open>Queries of \<open>CBSEDatabase\<close>\<close>

record examinerData =
  examinerName :: "string option"
  ed_schoolId :: "int option"
  ed_qualification :: "string option"
  ed_subjectId :: "int option"
  contactNumber :: "string option"
  ed_email :: "string option"
  experienceYears :: "int option"

text \<open>
  An INSERT first reads its parameters (an integer out of range fails there) and fits the
  strings to their columns (a string too long fails there), both before the sequence is
  touched; then it builds the row, drawing the id, and checks NOT NULL, CHECK, uniqueness
  and the foreign keys.
\<close>

definition addExaminer :: "database \<Rightarrow> examinerData \<Rightarrow> database \<times> (pg_error + examiner)" where
  "addExaminer d examinerData =
     (if \<not> (int4 (ed_schoolId examinerData) \<and> int4 (ed_subjectId examinerData) \<and>
             int4 (experienceYears examinerData))
      then (d, Inl numeric_value_out_of_range)
      else if \<not> (varchar 255 (examinerName examinerData) \<and>
                  varchar 255 (ed_qualification examinerData) \<and>
                  varchar 15 (contactNumber examinerData) \<and>
                  varchar 255 (ed_email examinerData))
      then (d, Inl string_data_right_truncation)
      else
        let new_id = examiners_seq d + 1;
            d1 = d\<lparr>examiners_seq := new_id\<rparr>
        in case first_error
             [(examinerName examinerData \<noteq> None, not_null_violation),
              (new_id \<notin> set (map examiner_id (examiners d)), unique_violation),
              (references (ed_schoolId examinerData) (map school_id (schools d)),
               foreign_key_violation),
              (references (ed_subjectId examinerData) (map subject_id (subjects d)),
               foreign_key_violation)] of
             Some e \<Rightarrow> (d1, Inl e)
           | None \<Rightarrow>
               let row = \<lparr>examiner_id = new_id,
                          examiner_name = take 255 (the (examinerName examinerData)),
                          examiner_school_id = ed_schoolId examinerData,
                          qualification = map_option (take 255) (ed_qualification examinerData),
                          examiner_subject_id = ed_subjectId examinerData,
                          contact_number = map_option (take 15) (contactNumber examinerData),
                          examiner_email = map_option (take 255) (ed_email examinerData),
                          experience_years = experienceYears examinerData\<rparr>
               in (d1\<lparr>examiners := examiners d @ [row]\<rparr>, Inr row))"

record userData =
  ud_username :: string
  ud_email :: string
  ud_password :: string
  ud_role :: string
  ud_examinerId :: "int option"
  ud_schoolId :: "int option"

definition createUser :: "database \<Rightarrow> userData \<Rightarrow> database \<times> (pg_error + user)" where
  "createUser d userData =
     (let hashedPassword = bcrypt_hash (ud_password userData)
      in if \<not> (int4 (ud_examinerId userData) \<and> int4 (ud_schoolId userData))
         then (d, Inl numeric_value_out_of_range)
         else if \<not> (varchar 50 (Some (ud_username userData)) \<and>
                     varchar 100 (Some (ud_email userData)) \<and>
                     varchar 20 (Some (ud_role userData)))
         then (d, Inl string_data_right_truncation)
         else
           let new_id = users_seq d + 1;
               d1 = d\<lparr>users_seq := new_id\<rparr>;
               username' = take 50 (ud_username userData);
               email' = take 100 (ud_email userData);
               role' = take 20 (ud_role userData)
           in case first_error
                [(role' \<in> {''admin'', ''coordinator'', ''examiner''}, check_violation),
                 (new_id \<notin> set (map user_id (users d)), unique_violation),
                 (username' \<notin> set (map user_username (users d)), unique_violation),
                 (email' \<notin> set (map user_email (users d)), unique_violation),
                 (references (ud_examinerId userData) (map examiner_id (examiners d)),
                  foreign_key_violation),
                 (references (ud_schoolId userData) (map school_id (schools d)),
                  foreign_key_violation)] of
                Some e \<Rightarrow> (d1, Inl e)
              | None \<Rightarrow>
                  let row = \<lparr>user_id = new_id,
                             user_username = username',
                             user_email = email',
                             password_hash = hashedPassword,
                             user_role = role',
                             user_examiner_id = ud_examinerId userData,
                             user_school_id = ud_schoolId userData,
                             is_active = True,
                             last_login = None\<rparr>
                  in (d1\<lparr>users := users d @ [row]\<rparr>, Inr row))"

text \<open>\<open>rows[0]\<close> of a result is its first row, or undefined when there is none.\<close>

definition getUserByUsername :: "database \<Rightarrow> string \<Rightarrow> user option" where
  "getUserByUsername d name =
     at (filter (\<lambda>u. user_username u = name \<and> is_active u = True) (users d)) 0"

definition getUserByEmail :: "database \<Rightarrow> string \<Rightarrow> user option" where
  "getUserByEmail d mail =
     at (filter (\<lambda>u. user_email u = mail \<and> is_active u = True) (users d)) 0"

definition updateLastLogin :: "database \<Rightarrow> int \<Rightarrow> int \<Rightarrow> database" where
  "updateLastLogin d uid now =
     d\<lparr>users := map (\<lambda>u. if user_id u = uid then u\<lparr>last_login := Some now\<rparr> else u) (users d)\<rparr>"


text \<open>The view \<open>evaluation_summary\<close>: answer sheets joined with their student, subject and examiner.\<close>

record summary =
  es_sheet_id :: int
  es_answer_book_id :: string
  es_student_roll_number :: "string option"
  es_student_name :: string
  es_subject_name :: string
  es_examiner_name :: string
  es_marks_assigned :: "int option"
  es_evaluation_date :: "date option"
  es_remarks :: "string option"
  es_examiner_id :: "int option"
  es_subject_id :: "int option"

definition evaluation_summary :: "database \<Rightarrow> summary list" where
  "evaluation_summary d =
     [\<lparr>es_sheet_id = sheet_id ans,
       es_answer_book_id = answer_book_id ans,
       es_student_roll_number = sheet_student_roll_number ans,
       es_student_name = student_name st,
       es_subject_name = subject_name sub,
       es_examiner_name = examiner_name e,
       es_marks_assigned = marks_assigned ans,
       es_evaluation_date = evaluation_date ans,
       es_remarks = remarks ans,
       es_examiner_id = sheet_examiner_id ans,
       es_subject_id = sheet_subject_id ans\<rparr>.
      ans \<leftarrow> answer_sheets d,
      st \<leftarrow> students d, sheet_student_roll_number ans = Some (student_roll_number st),
      sub \<leftarrow> subjects d, sheet_subject_id ans = Some (subject_id sub),
      e \<leftarrow> examiners d, sheet_examiner_id ans = Some (examiner_id e)]"

text \<open>
  \<open>ORDER BY evaluation_date DESC\<close> puts NULL first. The order of rows with equal dates
  is the engine's choice; here they keep the order of the view.
\<close>

definition date_desc :: "date option \<Rightarrow> date option \<Rightarrow> bool" where
  "date_desc a b =
     (case a of None \<Rightarrow> True | Some x \<Rightarrow> (case b of None \<Rightarrow> False | Some y \<Rightarrow> y \<le> x))"

fun insert_desc :: "summary \<Rightarrow> summary list \<Rightarrow> summary list" where
  "insert_desc r [] = [r]"
| "insert_desc r (x # xs) =
     (if date_desc (es_evaluation_date r) (es_evaluation_date x) then r # x # xs
      else x # insert_desc r xs)"

definition getAllAnswerSheets :: "database \<Rightarrow> summary list" where
  "getAllAnswerSheets d = foldr insert_desc (evaluation_summary d) []"

definition getAnswerSheetsByExaminer :: "database \<Rightarrow> int option \<Rightarrow> pg_error + summary list" where
  "getAnswerSheetsByExaminer d examinerId' =
     (if \<not> int4 examinerId' then Inl numeric_value_out_of_range
      else Inr (filter (\<lambda>r. examinerId' \<noteq> None \<and> es_examiner_id r = examinerId')
                  (evaluation_summary d)))"

text \<open>
  \<open>SELECT 1 FROM t WHERE id = $1\<close>: the number of rows found.
\<close>

definition select_1_where_id :: "int list \<Rightarrow> int option \<Rightarrow> pg_error + nat" where
  "select_1_where_id ids v =
     (if \<not> int4 v then Inl numeric_value_out_of_range
      else Inr (length (filter (\<lambda>i. v = Some i) ids)))"

record assignmentData =
  ad_examinerId :: "int option"
  ad_schoolId :: "int option"
  examDate :: "string option"
  examSession :: "string option"
  ad_subjectId :: "int option"

text \<open>
  How the engine reads the text of a DATE parameter is the engine's business: \<open>date_in\<close>
  gives the date for a text it accepts and \<open>None\<close> for one it rejects.
\<close>

text \<open>
  Reading the parameters of an assignment, in their order, and then fitting the session
  label to its column; the checks of the row itself come after the id is drawn.
\<close>

definition input_assignment ::
    "(string \<Rightarrow> date option) \<Rightarrow> assignmentData \<Rightarrow> (bool \<times> pg_error) list" where
  "input_assignment date_in a =
     [(int4 (ad_examinerId a), numeric_value_out_of_range),
      (int4 (ad_schoolId a), numeric_value_out_of_range),
      (case examDate a of None \<Rightarrow> True | Some s \<Rightarrow> date_in s \<noteq> None, invalid_datetime_format),
      (int4 (ad_subjectId a), numeric_value_out_of_range)]"

definition bind_assignment ::
    "(string \<Rightarrow> date option) \<Rightarrow> assignmentData \<Rightarrow> pg_error option" where
  "bind_assignment date_in a =
     first_error
       (input_assignment date_in a @
        [(varchar 20 (examSession a), string_data_right_truncation)])"

definition check_assignment :: "assignmentData \<Rightarrow> pg_error option" where
  "check_assignment a =
     first_error
       [(examDate a \<noteq> None, not_null_violation),
        (examSession a \<noteq> None, not_null_violation)]"

definition fk_assignment :: "database \<Rightarrow> assignmentData \<Rightarrow> pg_error option" where
  "fk_assignment d a =
     first_error
       [(references (ad_examinerId a) (map examiner_id (examiners d)), foreign_key_violation),
        (references (ad_schoolId a) (map school_id (schools d)), foreign_key_violation),
        (references (ad_subjectId a) (map subject_id (subjects d)), foreign_key_violation)]"

definition assignment_row :: "(string \<Rightarrow> date option) \<Rightarrow> int \<Rightarrow> assignmentData \<Rightarrow> assignment" where
  "assignment_row date_in i a =
     \<lparr>assignment_id = i,
      assignment_examiner_id = ad_examinerId a,
      assignment_school_id = ad_schoolId a,
      exam_date = the (date_in (the (examDate a))),
      exam_session = take 20 (the (examSession a)),
      assignment_subject_id = ad_subjectId a\<rparr>"

definition addInvigilationAssignment ::
    "(string \<Rightarrow> date option) \<Rightarrow> database \<Rightarrow> assignmentData \<Rightarrow>
     database \<times> (pg_error + assignment)" where
  "addInvigilationAssignment date_in d assignmentData =
     (case bind_assignment date_in assignmentData of
        Some e \<Rightarrow> (d, Inl e)
      | None \<Rightarrow>
          let new_id = assignments_seq d + 1;
              d1 = d\<lparr>assignments_seq := new_id\<rparr>
          in case check_assignment assignmentData of
               Some e \<Rightarrow> (d1, Inl e)
             | None \<Rightarrow>
                 if new_id \<in> set (map assignment_id (invigilation_assignments d))
                 then (d1, Inl unique_violation)
                 else (case fk_assignment d assignmentData of
                         Some e \<Rightarrow> (d1, Inl e)
                       | None \<Rightarrow>
                           let row = assignment_row date_in new_id assignmentData
                           in (d1\<lparr>invigilation_assignments :=
                                     invigilation_assignments d @ [row]\<rparr>,
                               Inr row)))"

text \<open>
  \<open>UPDATE invigilation_assignments SET ... WHERE assignment_id = $6 RETURNING *\<close>: the
  parameters are read and the session label fitted to its column whether or not a row
  matches; NOT NULL and the foreign keys are checked on the new row of each row that
  matches, so not at all when none does.
\<close>

definition update_assignment ::
    "(string \<Rightarrow> date option) \<Rightarrow> database \<Rightarrow> int \<Rightarrow> assignmentData \<Rightarrow>
     pg_error + database \<times> assignment list" where
  "update_assignment date_in d i a =
     (case first_error
             (input_assignment date_in a @
              [(int4 (Some i), numeric_value_out_of_range),
               (varchar 20 (examSession a), string_data_right_truncation)]) of
        Some e \<Rightarrow> Inl e
      | None \<Rightarrow>
          if i \<notin> set (map assignment_id (invigilation_assignments d)) then Inr (d, [])
          else (case check_assignment a of
                  Some e \<Rightarrow> Inl e
                | None \<Rightarrow>
                    (case fk_assignment d a of
                       Some e \<Rightarrow> Inl e
                     | None \<Rightarrow>
                         Inr (d\<lparr>invigilation_assignments :=
                                   map (\<lambda>r. if assignment_id r = i
                                             then assignment_row date_in i a else r)
                                     (invigilation_assignments d)\<rparr>,
                              map (\<lambda>r. assignment_row date_in i a)
                                (filter (\<lambda>r. assignment_id r = i)
                                   (invigilation_assignments d))))))"

section \<open>Requests, responses and middleware\<close>

text \<open>\<open>String.prototype.split(' ')\<close> and array indexing that yields undefined out of range.\<close>

fun split_sp :: "htext \<Rightarrow> htext list" where
  "split_sp [] = [[]]"
| "split_sp (c # cs) =
     (if c = Ch CHR '' '' then [] # split_sp cs
      else (case split_sp cs of [] \<Rightarrow> [[c]] | p # ps \<Rightarrow> (c # p) # ps))"

text \<open>
  A request: the text of its authorization header if it has one, its JSON body, and the id
  under which express-session files the session of this client.
\<close>

record 'b request =
  authorization :: "htext option"
  body :: 'b
  sessionID :: string

datatype thrown = Pg pg_error | TypeError

text \<open>
  The JSON the server answers with. \<open>Error s\<close> is \<open>{error: s}\<close>, \<open>ErrorOf e\<close> is
  \<open>{error: err.message}\<close>, \<open>ErrorDetails s e\<close> is \<open>{error: s, details: err.message}\<close>,
  \<open>Failure\<close> and \<open>FailureOf\<close> are the same with \<open>success: false\<close>, \<open>Success m row\<close>
  is \<open>{success: true, message: m, data: row}\<close>.
\<close>

datatype json =
    Error string
  | ErrorOf thrown
  | ErrorDetails string thrown
  | Failure string
  | FailureOf thrown
  | InternalServerError
  | RouteNotFound
  | Message string
  | Registered int string string string
  | LoginSuccessful jwt claims string
  | Valid int string string
  | Sheets "summary list"
  | Success string assignment

datatype response = Response (status: nat) (content: json)

text \<open>
  A middleware either answers the request, hands it on (\<open>next()\<close>) with the identity it
  attached as \<open>req.user\<close>, or throws. \<open>req.user\<close> is the payload of the token; of it
  the handlers read the five claims that login signed.
\<close>

datatype outcome = Respond response | Next "claims option" | Throw

definition authenticateToken :: "string \<Rightarrow> int \<Rightarrow> 'b request \<Rightarrow> outcome" where
  "authenticateToken JWT_SECRET now req =
     (let authHeader = authorization req;
          token = (case authHeader of
                     None \<Rightarrow> None
                   | Some h \<Rightarrow> if h = [] then Some [] else at (split_sp h) 1)
      in case token of
           None \<Rightarrow> Respond (Response 401 (Error ''Access token required''))
         | Some t \<Rightarrow>
             if t = [] then Respond (Response 401 (Error ''Access token required''))
             else (case jwt_verify t JWT_SECRET now of
                     Inl err \<Rightarrow> Respond (Response 403 (Error ''Invalid or expired token''))
                   | Inr user \<Rightarrow> Next (Some user)))"

text \<open>
  \<open>authorizeRole\<close> reads \<open>req.user.role\<close>; with no \<open>req.user\<close> that is a TypeError.
\<close>

definition authorizeRole :: "string list \<Rightarrow> claims option \<Rightarrow> outcome" where
  "authorizeRole roles user =
     (case user of
        None \<Rightarrow> Throw
      | Some u \<Rightarrow>
          if role u \<notin> set roles then Respond (Response 403 (Error ''Insufficient permissions''))
          else Next user)"

fun join_comma :: "string list \<Rightarrow> string" where
  "join_comma [] = []"
| "join_comma [x] = x"
| "join_comma (x # y # ys) = x @ '', '' @ join_comma (y # ys)"

text \<open>
  \<open>validateRequest\<close> collects the required fields whose value in the body is falsy;
  \<open>truthy b f\<close> says that \<open>req.body[f]\<close> is truthy.
\<close>

definition validateRequest ::
    "('b \<Rightarrow> string \<Rightarrow> bool) \<Rightarrow> string list \<Rightarrow> 'b request \<Rightarrow> claims option \<Rightarrow> outcome" where
  "validateRequest truthy requiredFields req user =
     (let missingFields = filter (\<lambda>field. \<not> truthy (body req) field) requiredFields
      in if length missingFields > 0
         then Respond (Response 400
                (Error (''Missing required fields: '' @ join_comma missingFields)))
         else Next user)"

subsection \<open>The routes and the middleware each one declares\<close>

datatype middleware =
    AuthenticateToken
  | AuthorizeRole "string list"
  | ValidateRequest "string list"

datatype verb = GET | POST | PUT | DELETE

datatype resource = Schools | Subjects | Examiners | Students | AnswerSheets | Invigilation

text \<open>
  \<open>Collection r\<close> is \<open>/api/r\<close>, \<open>Item r\<close> is \<open>/api/r/:id\<close>, \<open>ByExaminer\<close> is
  \<open>/api/answer-sheets/examiner/:examinerId\<close> and \<open>Auth a\<close> is \<open>/api/auth/a\<close>.
\<close>

datatype path = Collection resource | Item resource | ByExaminer | Auth string

definition staff :: "string list" where
  "staff = [''admin'', ''coordinator'']"

text \<open>The routes of these paths, in the order the application registers them.\<close>

definition routes :: "((verb \<times> path) \<times> middleware list) list" where
  "routes =
    [((POST, Auth ''register''), []),
     ((POST, Auth ''login''), []),
     ((POST, Auth ''logout''), [AuthenticateToken]),
     ((GET, Auth ''profile''), [AuthenticateToken]),
     ((GET, Auth ''verify''), [AuthenticateToken]),
     ((GET, Collection Schools), [AuthenticateToken]),
     ((POST, Collection Schools),
        [AuthenticateToken, AuthorizeRole staff, ValidateRequest [''school_name'', ''location'']]),
     ((PUT, Item Schools), [AuthorizeRole staff]),
     ((DELETE, Item Schools), [AuthorizeRole staff]),
     ((GET, Collection Subjects), [AuthenticateToken]),
     ((POST, Collection Subjects),
        [AuthenticateToken, AuthorizeRole staff,
         ValidateRequest [''subject_name'', ''subject_code'']]),
     ((PUT, Item Subjects), [AuthenticateToken, AuthorizeRole staff]),
     ((DELETE, Item Subjects), [AuthenticateToken, AuthorizeRole staff]),
     ((GET, Collection Examiners), [AuthenticateToken]),
     ((POST, Collection Examiners),
        [AuthenticateToken, AuthorizeRole staff,
         ValidateRequest [''examinerName'', ''schoolId'', ''subjectId'']]),
     ((PUT, Item Examiners), [AuthenticateToken, AuthorizeRole staff]),
     ((DELETE, Item Examiners), [AuthenticateToken, AuthorizeRole staff]),
     ((GET, Collection Students), [AuthenticateToken]),
     ((POST, Collection Students),
        [AuthenticateToken, AuthorizeRole staff,
         ValidateRequest [''studentRollNumber'', ''studentName'', ''schoolId'']]),
     ((PUT, Item Students), [AuthenticateToken, AuthorizeRole staff]),
     ((DELETE, Item Students), [AuthenticateToken, AuthorizeRole staff]),
     ((GET, Collection AnswerSheets), [AuthenticateToken]),
     ((POST, Collection AnswerSheets),
        [AuthenticateToken, AuthorizeRole staff,
         ValidateRequest [''answerBookId'', ''studentRollNumber'', ''subjectId'',
                          ''examinerId'']]),
     ((DELETE, Item AnswerSheets), [AuthenticateToken, AuthorizeRole staff]),
     ((GET, ByExaminer), []),
     ((PUT, Item AnswerSheets), [AuthenticateToken, AuthorizeRole staff]),
     ((GET, Collection Invigilation), [AuthenticateToken]),
     ((POST, Collection Invigilation),
        [AuthenticateToken, AuthorizeRole staff,
         ValidateRequest [''examinerId'', ''schoolId'', ''examDate'', ''examSession'']]),
     ((PUT, Item Invigilation),
        [AuthenticateToken, AuthorizeRole staff,
         ValidateRequest [''examinerId'', ''schoolId'', ''examDate'', ''examSession'',
                          ''subjectId'']]),
     ((DELETE, Item Invigilation), [AuthenticateToken, AuthorizeRole staff]),
     ((GET, Item Schools), []),
     ((GET, Item Examiners), []),
     ((GET, Item Students), [])]"

definition middlewares :: "verb \<Rightarrow> path \<Rightarrow> middleware list option" where
  "middlewares m p = map_of routes (m, p)"

text \<open>
  Express runs the declared middleware in order, starting with no \<open>req.user\<close>; the first
  one that answers ends the request.
\<close>

fun run_middlewares ::
    "string \<Rightarrow> int \<Rightarrow> ('b \<Rightarrow> string \<Rightarrow> bool) \<Rightarrow> middleware list \<Rightarrow> 'b request \<Rightarrow>
     claims option \<Rightarrow> outcome" where
  "run_middlewares secret now truthy [] req user = Next user"
| "run_middlewares secret now truthy (m # ms) req user =
     (case (case m of
              AuthenticateToken \<Rightarrow> authenticateToken secret now req
            | AuthorizeRole roles \<Rightarrow> authorizeRole roles user
            | ValidateRequest required \<Rightarrow> validateRequest truthy required req user) of
        Respond r \<Rightarrow> Respond r
      | Throw \<Rightarrow> Throw
      | Next user' \<Rightarrow> run_middlewares secret now truthy ms req user')"

text \<open>
  What the client gets before any handler runs: a thrown error reaches the error handler
  registered after the routes (500), an undeclared route the final 404 handler. \<open>Inr user\<close>
  means every middleware passed and the route's handler runs, with the identity given.
\<close>

definition guard ::
    "string \<Rightarrow> int \<Rightarrow> ('b \<Rightarrow> string \<Rightarrow> bool) \<Rightarrow> verb \<Rightarrow> path \<Rightarrow> 'b request \<Rightarrow>
     response + claims option" where
  "guard secret now truthy m p req =
     (case middlewares m p of
        None \<Rightarrow> Inl (Response 404 RouteNotFound)
      | Some ms \<Rightarrow>
          (case run_middlewares secret now truthy ms req None of
             Respond r \<Rightarrow> Inl r
           | Throw \<Rightarrow> Inl (Response 500 InternalServerError)
           | Next user \<Rightarrow> Inr user))"

definition bearer :: "jwt \<Rightarrow> htext" where
  "bearer j = text_of ''Bearer '' @ [Tok j]"

text \<open>Truthiness of a value that may be absent: a string is falsy when empty, a number when 0.\<close>

definition truthy_string :: "string option \<Rightarrow> bool" where
  "truthy_string v = (case v of None \<Rightarrow> False | Some s \<Rightarrow> s \<noteq> [])"

definition truthy_int :: "int option \<Rightarrow> bool" where
  "truthy_int v = (case v of None \<Rightarrow> False | Some n \<Rightarrow> n \<noteq> 0)"

section \<open>The handlers\<close>

text \<open>
  A body is modelled at the types its fields are meant to have: a text field is a string or
  absent, an id is an integer or absent (\<open>None\<close> stands for undefined and for null).
  The length of a string counts its characters.
\<close>

subsection \<open>Registration, login, logout\<close>

record registration =
  reg_username :: "string option"
  reg_email :: "string option"
  reg_password :: "string option"
  reg_role :: "string option"
  reg_examinerId :: "int option"
  reg_schoolId :: "int option"

text \<open>
  \<open>POST /api/auth/register\<close>. Whatever a query throws is caught and answered with 500;
  rows written before that stay written.
\<close>

definition register :: "database \<Rightarrow> registration \<Rightarrow> database \<times> response" where
  "register d b =
     (case (reg_username b, reg_email b, reg_password b) of
        (Some username', Some email, Some password) \<Rightarrow>
          if username' = [] \<or> email = [] \<or> password = []
          then (d, Response 400 (Error ''Username, email, and password are required''))
          else if length password < 6
          then (d, Response 400 (Error ''Password must be at least 6 characters long''))
          else if getUserByUsername d username' \<noteq> None
          then (d, Response 400 (Error ''Username already exists''))
          else if getUserByEmail d email \<noteq> None
          then (d, Response 400 (Error ''Email already registered''))
          else
            (case (if reg_role b = Some ''examiner'' \<and> \<not> truthy_int (reg_examinerId b)
                   then (case addExaminer d
                                \<lparr>examinerName = Some username',
                                 ed_schoolId =
                                   (if truthy_int (reg_schoolId b) then reg_schoolId b else Some 1),
                                 ed_qualification = Some ''Not specified'',
                                 ed_subjectId = Some 1,
                                 contactNumber = None,
                                 ed_email = Some email,
                                 experienceYears = Some 0\<rparr> of
                           (d1, Inl e) \<Rightarrow> (d1, Inl e)
                         | (d1, Inr newExaminer) \<Rightarrow> (d1, Inr (Some (examiner_id newExaminer))))
                   else (d, Inr (reg_examinerId b))) of
               (d1, Inl e) \<Rightarrow> (d1, Response 500 (ErrorDetails ''Registration failed'' (Pg e)))
             | (d1, Inr finalExaminerId) \<Rightarrow>
                 (case createUser d1
                         \<lparr>ud_username = username',
                          ud_email = email,
                          ud_password = password,
                          ud_role = (if truthy_string (reg_role b) then the (reg_role b)
                                     else ''examiner''),
                          ud_examinerId = finalExaminerId,
                          ud_schoolId = reg_schoolId b\<rparr> of
                    (d2, Inl e) \<Rightarrow> (d2, Response 500 (ErrorDetails ''Registration failed'' (Pg e)))
                  | (d2, Inr u) \<Rightarrow>
                      (d2, Response 201
                             (Registered (user_id u) (user_username u) (user_email u)
                                (user_role u)))))
      | _ \<Rightarrow> (d, Response 400 (Error ''Username, email, and password are required'')))"

text \<open>The server: its tables and the sessions that express-session keeps in memory.\<close>

record session =
  session_userId :: int
  session_username :: string
  session_role :: string

record server =
  db :: database
  sessions :: "string \<rightharpoonup> session"

record credentials =
  cred_username :: "string option"
  cred_password :: "string option"

definition login :: "string \<Rightarrow> int \<Rightarrow> server \<Rightarrow> credentials request \<Rightarrow> server \<times> response" where
  "login JWT_SECRET now srv req =
     (case (cred_username (body req), cred_password (body req)) of
        (Some username', Some password) \<Rightarrow>
          if username' = [] \<or> password = []
          then (srv, Response 400 (Error ''Username and password are required''))
          else
            (case getUserByUsername (db srv) username' of
               None \<Rightarrow> (srv, Response 401 (Error ''Invalid credentials''))
             | Some u \<Rightarrow>
                 if \<not> bcrypt_compare password (password_hash u)
                 then (srv, Response 401 (Error ''Invalid credentials''))
                 else
                   let identity = \<lparr>userId = user_id u,
                                   username = user_username u,
                                   role = user_role u,
                                   examinerId = user_examiner_id u,
                                   schoolId = user_school_id u\<rparr>;
                       token = jwt_sign identity JWT_SECRET now
                   in (srv\<lparr>db := updateLastLogin (db srv) (user_id u) now,
                            sessions := (sessions srv)(sessionID req \<mapsto>
                              \<lparr>session_userId = user_id u,
                               session_username = user_username u,
                               session_role = user_role u\<rparr>)\<rparr>,
                       Response 200 (LoginSuccessful token identity (user_email u))))
      | _ \<Rightarrow> (srv, Response 400 (Error ''Username and password are required'')))"

text \<open>
  \<open>req.session.destroy\<close> removes the session from the store and reports an error if the
  store has one; the memory store in use never has.
\<close>

definition destroy :: "(string \<rightharpoonup> session) \<Rightarrow> string \<Rightarrow> (string \<rightharpoonup> session) \<times> thrown option" where
  "destroy ss sid = (ss(sid := None), None)"

definition logout :: "string \<Rightarrow> int \<Rightarrow> server \<Rightarrow> 'b request \<Rightarrow> server \<times> response" where
  "logout JWT_SECRET now srv req =
     (case guard JWT_SECRET now (\<lambda>b f. False) POST (Auth ''logout'') req of
        Inl r \<Rightarrow> (srv, r)
      | Inr user \<Rightarrow>
          (case destroy (sessions srv) (sessionID req) of
             (ss, Some err) \<Rightarrow> (srv\<lparr>sessions := ss\<rparr>, Response 500 (Error ''Logout failed''))
           | (ss, None) \<Rightarrow> (srv\<lparr>sessions := ss\<rparr>, Response 200 (Message ''Logout successful''))))"

text \<open>\<open>GET /api/auth/verify\<close>, the plainest protected route.\<close>

definition verify :: "string \<Rightarrow> int \<Rightarrow> 'b request \<Rightarrow> response" where
  "verify JWT_SECRET now req =
     (case guard JWT_SECRET now (\<lambda>b f. False) GET (Auth ''verify'') req of
        Inl r \<Rightarrow> r
      | Inr None \<Rightarrow> Response 500 InternalServerError
      | Inr (Some u) \<Rightarrow> Response 200 (Valid (userId u) (username u) (role u)))"

subsection \<open>Answer sheets\<close>

text \<open>
  The handler of \<open>GET /api/answer-sheets\<close>; \<open>user\<close> is \<open>req.user\<close>. Its body is one
  try block, so reading the role of an absent identity ends in its catch.
\<close>

definition get_answer_sheets :: "database \<Rightarrow> claims option \<Rightarrow> response" where
  "get_answer_sheets d user =
     (case user of
        None \<Rightarrow> Response 500 (ErrorDetails ''Failed to fetch answer sheets'' TypeError)
      | Some u \<Rightarrow>
          if role u = ''examiner'' then
            (if \<not> truthy_int (examinerId u)
             then Response 400 (Error ''Examiner ID not associated with this user'')
             else (case getAnswerSheetsByExaminer d (examinerId u) of
                     Inl e \<Rightarrow> Response 500 (ErrorDetails ''Failed to fetch answer sheets'' (Pg e))
                   | Inr answerSheets \<Rightarrow> Response 200 (Sheets answerSheets)))
          else Response 200 (Sheets (getAllAnswerSheets d)))"

definition answer_sheets_route :: "string \<Rightarrow> int \<Rightarrow> database \<Rightarrow> 'b request \<Rightarrow> response" where
  "answer_sheets_route JWT_SECRET now d req =
     (case guard JWT_SECRET now (\<lambda>b f. False) GET (Collection AnswerSheets) req of
        Inl r \<Rightarrow> r
      | Inr user \<Rightarrow> get_answer_sheets d user)"

text \<open>
  \<open>GET /api/answer-sheets/examiner/:examinerId\<close>. The id is the number the engine reads
  in that piece of the URL.
\<close>

definition get_answer_sheets_by_examiner :: "database \<Rightarrow> int \<Rightarrow> response" where
  "get_answer_sheets_by_examiner d examinerId' =
     (case getAnswerSheetsByExaminer d (Some examinerId') of
        Inl e \<Rightarrow> Response 500 (ErrorOf (Pg e))
      | Inr answerSheets \<Rightarrow> Response 200 (Sheets answerSheets))"

definition answer_sheets_by_examiner_route ::
    "string \<Rightarrow> int \<Rightarrow> database \<Rightarrow> int \<Rightarrow> 'b request \<Rightarrow> response" where
  "answer_sheets_by_examiner_route JWT_SECRET now d examinerId' req =
     (case guard JWT_SECRET now (\<lambda>b f. False) GET ByExaminer req of
        Inl r \<Rightarrow> r
      | Inr user \<Rightarrow> get_answer_sheets_by_examiner d examinerId')"

subsection \<open>Invigilation assignments\<close>

text \<open>
  \<open>isValidDate\<close>. The pattern \<open>/^\d{4}-\d{2}-\d{2}$/\<close> is ten characters: digits with a
  hyphen in the fifth and the eighth place.
\<close>

definition is_digit :: "char \<Rightarrow> bool" where
  "is_digit c = (48 \<le> (of_char c :: nat) \<and> (of_char c :: nat) \<le> 57)"

definition regex_test :: "string \<Rightarrow> bool" where
  "regex_test s =
     (length s = 10 \<and> list_all is_digit (take 4 s) \<and> s ! 4 = CHR ''-'' \<and>
      list_all is_digit (take 2 (drop 5 s)) \<and> s ! 7 = CHR ''-'' \<and>
      list_all is_digit (drop 8 s))"

definition number :: "string \<Rightarrow> nat" where
  "number s = foldl (\<lambda>n c. 10 * n + (of_char c - 48)) 0 s"

definition leap :: "nat \<Rightarrow> bool" where
  "leap y = (y mod 4 = 0 \<and> (y mod 100 \<noteq> 0 \<or> y mod 400 = 0))"

definition days_in_month :: "nat \<Rightarrow> nat \<Rightarrow> nat" where
  "days_in_month y m =
     (if m = 2 then (if leap y then 29 else 28)
      else if m = 4 \<or> m = 6 \<or> m = 9 \<or> m = 11 then 30 else 31)"

text \<open>
  \<open>new Date(s)\<close> for a text of that shape, as the engine of Node reads a date-only ISO
  form: a month outside 1..12 or a day outside 1..31 gives an invalid date (\<open>None\<close>);
  otherwise the day at 00:00 UTC, a day past the end of its month running over into the
  next. The value is kept as its UTC year, month and day.
\<close>

definition new_Date :: "string \<Rightarrow> (nat \<times> nat \<times> nat) option" where
  "new_Date s =
     (let y = number (take 4 s); m = number (take 2 (drop 5 s)); d = number (drop 8 s)
      in if m < 1 \<or> 12 < m \<or> d < 1 \<or> 31 < d then None
         else if d \<le> days_in_month y m then Some (y, m, d)
         else if m = 12 then Some (y + 1, 1, d - days_in_month y m)
         else Some (y, m + 1, d - days_in_month y m))"

fun pad :: "nat \<Rightarrow> nat \<Rightarrow> string" where
  "pad 0 k = []"
| "pad (Suc n) k = pad n (k div 10) @ [char_of (48 + k mod 10)]"

definition toISOString :: "nat \<times> nat \<times> nat \<Rightarrow> string" where
  "toISOString t =
     (case t of (y, m, d) \<Rightarrow> pad 4 y @ ''-'' @ pad 2 m @ ''-'' @ pad 2 d @ ''T00:00:00.000Z'')"

definition startsWith :: "string \<Rightarrow> string \<Rightarrow> bool" where
  "startsWith t s = (take (length s) t = s)"

text \<open>An absent \<open>examDate\<close> is tested as the text \<open>undefined\<close>, which the pattern rejects.\<close>

definition isValidDate :: "string option \<Rightarrow> bool" where
  "isValidDate dateString =
     (case dateString of
        None \<Rightarrow> False
      | Some s \<Rightarrow>
          if \<not> regex_test s then False
          else (case new_Date s of
                  None \<Rightarrow> False
                | Some date \<Rightarrow> startsWith (toISOString date) s))"

definition assignment_field :: "assignmentData \<Rightarrow> string \<Rightarrow> bool" where
  "assignment_field b f =
     (if f = ''examinerId'' then truthy_int (ad_examinerId b)
      else if f = ''schoolId'' then truthy_int (ad_schoolId b)
      else if f = ''examDate'' then truthy_string (examDate b)
      else if f = ''examSession'' then truthy_string (examSession b)
      else if f = ''subjectId'' then truthy_int (ad_subjectId b)
      else False)"

text \<open>The handler of \<open>POST /api/invigilation\<close>.\<close>

definition post_invigilation ::
    "(string \<Rightarrow> date option) \<Rightarrow> database \<Rightarrow> assignmentData \<Rightarrow> database \<times> response" where
  "post_invigilation date_in d b =
     (case addInvigilationAssignment date_in d b of
        (d1, Inl e) \<Rightarrow> (d1, Response 500 (FailureOf (Pg e)))
      | (d1, Inr row) \<Rightarrow>
          (d1, Response 201 (Success ''Invigilation assignment added successfully'' row)))"

definition post_invigilation_route ::
    "string \<Rightarrow> int \<Rightarrow> (string \<Rightarrow> date option) \<Rightarrow> database \<Rightarrow> assignmentData request \<Rightarrow>
     database \<times> response" where
  "post_invigilation_route JWT_SECRET now date_in d req =
     (case guard JWT_SECRET now assignment_field POST (Collection Invigilation) req of
        Inl r \<Rightarrow> (d, r)
      | Inr user \<Rightarrow> post_invigilation date_in d (body req))"

text \<open>The handler of \<open>PUT /api/invigilation/:id\<close>.\<close>

definition put_invigilation ::
    "(string \<Rightarrow> date option) \<Rightarrow> database \<Rightarrow> int \<Rightarrow> assignmentData \<Rightarrow> database \<times> response" where
  "put_invigilation date_in d i b =
     (if \<not> isValidDate (examDate b)
      then (d, Response 400 (Failure ''Invalid exam date format. Use YYYY-MM-DD.''))
      else case select_1_where_id (map examiner_id (examiners d)) (ad_examinerId b) of
        Inl e \<Rightarrow> (d, Response 500 (FailureOf (Pg e)))
      | Inr examinerCheck \<Rightarrow>
          if examinerCheck = 0 then (d, Response 400 (Failure ''Invalid examiner ID''))
          else case select_1_where_id (map school_id (schools d)) (ad_schoolId b) of
            Inl e \<Rightarrow> (d, Response 500 (FailureOf (Pg e)))
          | Inr schoolCheck \<Rightarrow>
              if schoolCheck = 0 then (d, Response 400 (Failure ''Invalid school ID''))
              else case select_1_where_id (map subject_id (subjects d)) (ad_subjectId b) of
                Inl e \<Rightarrow> (d, Response 500 (FailureOf (Pg e)))
              | Inr subjectCheck \<Rightarrow>
                  if subjectCheck = 0 then (d, Response 400 (Failure ''Invalid subject ID''))
                  else case update_assignment date_in d i b of
                    Inl e \<Rightarrow> (d, Response 500 (FailureOf (Pg e)))
                  | Inr (d1, rows) \<Rightarrow>
                      (case rows of
                         [] \<Rightarrow> (d1, Response 404 (Failure ''Assignment not found''))
                       | row # _ \<Rightarrow>
                           (d1, Response 200
                                  (Success ''Invigilation assignment updated successfully''
                                     row))))"

definition put_invigilation_route ::
    "string \<Rightarrow> int \<Rightarrow> (string \<Rightarrow> date option) \<Rightarrow> database \<Rightarrow> int \<Rightarrow>
     assignmentData request \<Rightarrow> database \<times> response" where
  "put_invigilation_route JWT_SECRET now date_in d i req =
     (case guard JWT_SECRET now assignment_field PUT (Item Invigilation) req of
        Inl r \<Rightarrow> (d, r)
      | Inr user \<Rightarrow> put_invigilation date_in d i (body req))"

section \<open>The store after start-up\<close>

text \<open>
  What \<open>initializeDatabase\<close> leaves in tables that were empty: the rows of
  \<open>insertSampleData\<close> and the default administrator.
\<close>

definition sample_db :: database where
  "sample_db =
     \<lparr>users =
        [\<lparr>user_id = 1, user_username = ''admin'', user_email = ''admin@cbse.edu.in'',
          password_hash = bcrypt_hash ''admin123'', user_role = ''admin'',
          user_examiner_id = None, user_school_id = None, is_active = True,
          last_login = None\<rparr>],
      users_seq = 1,
      schools =
        [\<lparr>school_id = 1, school_name = ''Delhi Public School'', location = ''New Delhi''\<rparr>,
         \<lparr>school_id = 2, school_name = ''Kendriya Vidyalaya'', location = ''Mumbai''\<rparr>,
         \<lparr>school_id = 3, school_name = ''St. Xavier School'', location = ''Kolkata''\<rparr>],
      subjects =
        [\<lparr>subject_id = 1, subject_name = ''Mathematics'', subject_code = ''MATH001''\<rparr>,
         \<lparr>subject_id = 2, subject_name = ''Physics'', subject_code = ''PHY001''\<rparr>,
         \<lparr>subject_id = 3, subject_name = ''Chemistry'', subject_code = ''CHEM001''\<rparr>,
         \<lparr>subject_id = 4, subject_name = ''Biology'', subject_code = ''BIO001''\<rparr>,
         \<lparr>subject_id = 5, subject_name = ''English'', subject_code = ''ENG001''\<rparr>],
      examiners =
        [\<lparr>examiner_id = 1, examiner_name = ''Dr. Rajesh Kumar'', examiner_school_id = Some 1,
          qualification = Some ''M.Sc Mathematics, Ph.D'', examiner_subject_id = Some 1,
          contact_number = Some ''9876543210'',
          examiner_email = Some ''rajesh.kumar@email.com'', experience_years = Some 15\<rparr>,
         \<lparr>examiner_id = 2, examiner_name = ''Mrs. Priya Sharma'', examiner_school_id = Some 2,
          qualification = Some ''M.Sc Physics'', examiner_subject_id = Some 2,
          contact_number = Some ''9876543211'',
          examiner_email = Some ''priya.sharma@email.com'', experience_years = Some 12\<rparr>,
         \<lparr>examiner_id = 3, examiner_name = ''Dr. Amit Singh'', examiner_school_id = Some 3,
          qualification = Some ''M.Sc Chemistry, Ph.D'', examiner_subject_id = Some 3,
          contact_number = Some ''9876543212'',
          examiner_email = Some ''amit.singh@email.com'', experience_years = Some 18\<rparr>],
      examiners_seq = 3,
      students =
        [\<lparr>student_roll_number = ''2024001001'', student_name = ''Amit Patel'',
          student_school_id = Some 1\<rparr>,
         \<lparr>student_roll_number = ''2024001002'', student_name = ''Sneha'',
          student_school_id = Some 2\<rparr>],
      answer_sheets =
        [\<lparr>sheet_id = 1, answer_book_id = ''AB2024001'',
          sheet_student_roll_number = Some ''2024001001'', sheet_subject_id = Some 1,
          sheet_examiner_id = Some 1, marks_assigned = Some 45,
          evaluation_date = Some 20240520, remarks = Some ''Good performance''\<rparr>,
         \<lparr>sheet_id = 2, answer_book_id = ''AB2024002'',
          sheet_student_roll_number = Some ''2024001002'', sheet_subject_id = Some 2,
          sheet_examiner_id = Some 2, marks_assigned = Some 48,
          evaluation_date = Some 20240530, remarks = Some ''Excellent''\<rparr>],
      invigilation_assignments = [],
      assignments_seq = 0\<rparr>"

section \<open>Notions used in the statements\<close>

text \<open>A reference resolves when it is the id of a row of the table it points to.\<close>

definition resolves :: "int option \<Rightarrow> int list \<Rightarrow> bool" where
  "resolves v ids = (case v of None \<Rightarrow> False | Some n \<Rightarrow> n \<in> set ids)"

section \<open>The authentication gateway\<close>

lemma jwt_verify_ok:
  "jwt_verify t secret now = Inr c \<longleftrightarrow> (\<exists>j. t = [Tok j] \<and> key j = secret \<and> now < exp j \<and> c = payload j)"
  by (auto simp: jwt_verify_def split: list.splits hchar.splits)

lemma jwt_verify_sign:
  "now < t0 + 86400 \<Longrightarrow> jwt_verify [Tok (jwt_sign c secret t0)] secret now = Inr c"
  by (simp add: jwt_verify_def jwt_sign_def)

lemma split_sp_bearer: "split_sp (bearer j) = [text_of ''Bearer'', [Tok j]]"
  by (simp add: bearer_def text_of_def)

lemma bearer_nonempty: "bearer j \<noteq> []"
  by (simp add: bearer_def)

lemma authenticateToken_bearer:
  "authenticateToken secret now (req\<lparr>authorization := Some (bearer j)\<rparr>) =
     (case jwt_verify [Tok j] secret now of
        Inl e \<Rightarrow> Respond (Response 403 (Error ''Invalid or expired token''))
      | Inr c \<Rightarrow> Next (Some c))"
  by (simp add: authenticateToken_def split_sp_bearer bearer_nonempty)

text \<open>
  C1, as the code has it. A request whose authorization header is absent or empty, or has
  no second piece after a space, or an empty one, is answered 401 "Access token required".
  A request that carries a token whose verification fails, whatever the failure (not a
  token, a signature of another key, expired), is answered with the status 403 and always
  the one message "Invalid or expired token".
\<close>

theorem authenticateToken_rejections:
  "((case authorization req of
       None \<Rightarrow> True
     | Some h \<Rightarrow> h = [] \<or> at (split_sp h) 1 = None \<or> at (split_sp h) 1 = Some [])
    \<longrightarrow> authenticateToken secret now req =
          Respond (Response 401 (Error ''Access token required'')))
   \<and> (\<forall>h t e. authorization req = Some h \<and> at (split_sp h) 1 = Some t \<and> t \<noteq> [] \<and>
          jwt_verify t secret now = Inl e
        \<longrightarrow> authenticateToken secret now req =
              Respond (Response 403 (Error ''Invalid or expired token'')))"
  by (auto simp: authenticateToken_def split: option.splits)

theorem authenticateToken_rejections_witness:
  "authenticateToken ''cbse-jwt-secret-key'' 100
     \<lparr>authorization = Some (text_of ''Bearer''), body = (), sessionID = ''s''\<rparr> =
     Respond (Response 401 (Error ''Access token required''))
   \<and> authenticateToken ''cbse-jwt-secret-key'' 100
       \<lparr>authorization = Some (bearer (Jwt \<lparr>userId = 1, username = ''admin'', role = ''admin'',
                                            examinerId = None, schoolId = None\<rparr>
                                        0 100 ''cbse-jwt-secret-key'')),
        body = (), sessionID = ''s''\<rparr> =
     Respond (Response 403 (Error ''Invalid or expired token''))"
proof -
  let ?j = "Jwt \<lparr>userId = 1, username = ''admin'', role = ''admin'', examinerId = None,
                 schoolId = None\<rparr> 0 100 ''cbse-jwt-secret-key''"
  let ?r1 = "\<lparr>authorization = Some (text_of ''Bearer''), body = (), sessionID = ''s''\<rparr>"
  let ?r2 = "\<lparr>authorization = Some (bearer ?j), body = (), sessionID = ''s''\<rparr>"
  have h1: "case authorization ?r1 of
              None \<Rightarrow> True
            | Some h \<Rightarrow> h = [] \<or> at (split_sp h) 1 = None \<or> at (split_sp h) 1 = Some []"
    by (simp add: text_of_def)
  have h2: "authorization ?r2 = Some (bearer ?j) \<and> at (split_sp (bearer ?j)) 1 = Some [Tok ?j] \<and>
            [Tok ?j] \<noteq> [] \<and> jwt_verify [Tok ?j] ''cbse-jwt-secret-key'' 100 = Inl TokenExpiredError"
    by (simp add: split_sp_bearer jwt_verify_def)
  from authenticateToken_rejections [of ?r1 "''cbse-jwt-secret-key''" 100] h1
  have a: "authenticateToken ''cbse-jwt-secret-key'' 100 ?r1 =
             Respond (Response 401 (Error ''Access token required''))"
    by blast
  from authenticateToken_rejections [of ?r2 "''cbse-jwt-secret-key''" 100] h2
  have b: "authenticateToken ''cbse-jwt-secret-key'' 100 ?r2 =
             Respond (Response 403 (Error ''Invalid or expired token''))"
    by blast
  from a b show ?thesis by simp
qed

text \<open>
  C1 as stated fails: a header "Bearer garbage" does not verify, and the answer has status
  403, not 401.
\<close>

theorem authenticateToken_invalid_is_403:
  "jwt_verify (text_of ''garbage'') ''cbse-jwt-secret-key'' 100 = Inl JsonWebTokenError
   \<and> authenticateToken ''cbse-jwt-secret-key'' 100
       \<lparr>authorization = Some (text_of ''Bearer garbage''), body = (), sessionID = ''s''\<rparr> =
     Respond (Response 403 (Error ''Invalid or expired token''))
   \<and> status (Response 403 (Error ''Invalid or expired token'')) \<noteq> 401"
  by (simp add: authenticateToken_def jwt_verify_def text_of_def)

section \<open>Role checks on the write routes\<close>

text \<open>
  On the write routes that run \<open>authenticateToken\<close> before \<open>authorizeRole\<close>, a valid
  token with the role examiner is answered 403, whatever the body.
\<close>

lemma write_route_chain:
  assumes "(m, p) \<in> {(POST, Collection Schools),
                    (POST, Collection Examiners), (PUT, Item Examiners), (DELETE, Item Examiners),
                    (POST, Collection Students), (PUT, Item Students), (DELETE, Item Students),
                    (POST, Collection Invigilation), (PUT, Item Invigilation),
                    (DELETE, Item Invigilation)}"
  shows "\<exists>rest. middlewares m p = Some (AuthenticateToken # AuthorizeRole staff # rest)"
  using assms by (elim insertE emptyE) (simp_all add: middlewares_def routes_def)

lemma examiner_not_staff:
  "role u = ''examiner'' \<Longrightarrow>
   authorizeRole staff (Some u) = Respond (Response 403 (Error ''Insufficient permissions''))"
  by (simp add: authorizeRole_def staff_def)

lemma examiner_write_forbidden:
  assumes "authenticateToken secret now req = Next (Some u)" and "role u = ''examiner''"
    and "(m, p) \<in> {(POST, Collection Schools),
                    (POST, Collection Examiners), (PUT, Item Examiners), (DELETE, Item Examiners),
                    (POST, Collection Students), (PUT, Item Students), (DELETE, Item Students),
                    (POST, Collection Invigilation), (PUT, Item Invigilation),
                    (DELETE, Item Invigilation)}"
  shows "guard secret now truthy m p req = Inl (Response 403 (Error ''Insufficient permissions''))"
proof -
  from write_route_chain [OF assms(3)] obtain rest
    where "middlewares m p = Some (AuthenticateToken # AuthorizeRole staff # rest)" ..
  with assms(1) examiner_not_staff [OF assms(2)] show ?thesis
    by (simp add: guard_def)
qed

text \<open>
  \<open>PUT\<close> and \<open>DELETE /api/schools/:id\<close> declare \<open>authorizeRole\<close> alone: no identity
  is attached when it runs, it throws, and every request ends in the error handler.
\<close>

lemma school_item_write_throws:
  "m \<in> {PUT, DELETE} \<Longrightarrow>
   guard secret now truthy m (Item Schools) req = Inl (Response 500 InternalServerError)"
  by (elim insertE emptyE) (simp_all add: guard_def middlewares_def routes_def authorizeRole_def)

text \<open>
  C2 at \<open>PUT /api/schools/1\<close> with a valid examiner token: the token verifies, the role is
  examiner, and the answer is 500 from the error handler, not 403.
\<close>

theorem put_school_examiner_500:
  "authenticateToken ''cbse-jwt-secret-key'' 100
     \<lparr>authorization = Some (bearer (jwt_sign \<lparr>userId = 2, username = ''ex'', role = ''examiner'',
                                              examinerId = Some 1, schoolId = None\<rparr>
                                      ''cbse-jwt-secret-key'' 0)),
      body = (), sessionID = ''s''\<rparr> =
     Next (Some \<lparr>userId = 2, username = ''ex'', role = ''examiner'', examinerId = Some 1,
                schoolId = None\<rparr>)
   \<and> guard ''cbse-jwt-secret-key'' 100 (\<lambda>b f. False) PUT (Item Schools)
       \<lparr>authorization = Some (bearer (jwt_sign \<lparr>userId = 2, username = ''ex'', role = ''examiner'',
                                                examinerId = Some 1, schoolId = None\<rparr>
                                        ''cbse-jwt-secret-key'' 0)),
        body = (), sessionID = ''s''\<rparr> =
     Inl (Response 500 InternalServerError)
   \<and> guard ''cbse-jwt-secret-key'' 100 (\<lambda>b f. False) PUT (Item Students)
       \<lparr>authorization = Some (bearer (jwt_sign \<lparr>userId = 2, username = ''ex'', role = ''examiner'',
                                                examinerId = Some 1, schoolId = None\<rparr>
                                        ''cbse-jwt-secret-key'' 0)),
        body = (), sessionID = ''s''\<rparr> =
     Inl (Response 403 (Error ''Insufficient permissions''))"
  by (simp add: guard_def middlewares_def routes_def authorizeRole_def staff_def
      authenticateToken_def split_sp_bearer jwt_verify_sign bearer_nonempty)


section \<open>The date check\<close>

lemma digit_roundtrip: "is_digit c \<Longrightarrow> char_of (48 + ((of_char c :: nat) - 48)) = c"
  by (simp add: is_digit_def)

lemma digit_lt: "is_digit c \<Longrightarrow> (of_char c :: nat) - 48 < 10"
  by (auto simp: is_digit_def)

lemma pad2: "pad 2 k = [char_of (48 + k div 10 mod 10), char_of (48 + k mod 10)]"
proof -
  have e: "(2::nat) = Suc (Suc 0)" by simp
  show ?thesis by (subst e) simp
qed

lemma pad4:
  "pad 4 k = [char_of (48 + k div 10 div 10 div 10 mod 10), char_of (48 + k div 10 div 10 mod 10),
              char_of (48 + k div 10 mod 10), char_of (48 + k mod 10)]"
proof -
  have e: "(4::nat) = Suc (Suc (Suc (Suc 0)))" by simp
  show ?thesis by (subst e) simp
qed

lemma shift_div: "d < 10 \<Longrightarrow> (10 * x + d) div 10 = (x::nat)"
  by simp

lemma shift_mod: "d < 10 \<Longrightarrow> (10 * x + d) mod 10 = (d::nat)"
  by simp

lemma number2: "number [a, b] = 10 * (of_char a - 48) + (of_char b - 48)"
  by (simp add: number_def)

lemma number4:
  "number [a, b, c, d] =
     10 * (10 * (10 * (of_char a - 48) + (of_char b - 48)) + (of_char c - 48)) + (of_char d - 48)"
  by (simp add: number_def)

lemma pad2_number:
  assumes "is_digit a" "is_digit b"
  shows "pad 2 (number [a, b]) = [a, b]"
  using assms digit_lt [of a] digit_lt [of b]
  by (simp add: pad2 number2 shift_div shift_mod digit_roundtrip)

lemma digits4:
  fixes a b c d :: nat
  assumes "a < 10" "b < 10" "c < 10" "d < 10"
  defines "k \<equiv> 10 * (10 * (10 * a + b) + c) + d"
  shows "k mod 10 = d" "k div 10 mod 10 = c" "k div 10 div 10 mod 10 = b"
    "k div 10 div 10 div 10 mod 10 = a"
  unfolding k_def using assms(1-4) by (simp_all only: shift_div shift_mod mod_less)

lemma pad4_number:
  assumes "is_digit a" "is_digit b" "is_digit c" "is_digit d"
  shows "pad 4 (number [a, b, c, d]) = [a, b, c, d]"
  unfolding pad4 number4
  using assms digit_lt [of a] digit_lt [of b] digit_lt [of c] digit_lt [of d]
  by (simp only: digits4 digit_roundtrip)

lemma length10:
  assumes "length s = 10"
  shows "\<exists>a b c d e f g h i j. s = [a, b, c, d, e, f, g, h, i, j]"
proof -
  have e: "(10::nat) = Suc (Suc (Suc (Suc (Suc (Suc (Suc (Suc (Suc (Suc 0)))))))))" by simp
  from assms show ?thesis unfolding e by (auto simp: length_Suc_conv)
qed

lemma number_pad2: "k < 100 \<Longrightarrow> number (pad 2 k) = k"
proof -
  assume k: "k < 100"
  have "k div 10 mod 10 = k div 10" using k by simp
  moreover have "(48 + k div 10) mod 256 = 48 + k div 10" using k by simp
  moreover have "(48 + k mod 10) mod 256 = 48 + k mod 10" by simp
  ultimately show ?thesis by (simp add: pad2 number2)
qed

lemma of_char_digit: "(of_char (char_of (48 + k mod 10 :: nat)) :: nat) = 48 + k mod 10"
  by simp

lemma is_digit_pad: "is_digit (char_of (48 + k mod 10 :: nat))"
  by (simp add: is_digit_def)

lemma number_pad4: "k < 10000 \<Longrightarrow> number (pad 4 k) = k"
proof -
  assume k: "k < 10000"
  have "number (pad 4 k) =
      10 * (10 * (10 * (k div 10 div 10 div 10 mod 10) + k div 10 div 10 mod 10) + k div 10 mod 10)
        + k mod 10"
    unfolding pad4 number4 of_char_digit by simp
  also have "\<dots> = k"
  proof -
    have "k div 10 div 10 div 10 < 10" using k by simp
    then have "k div 10 div 10 div 10 mod 10 = k div 10 div 10 div 10" by simp
    then show ?thesis by (simp only: mult_div_mod_eq)
  qed
  finally show ?thesis .
qed

lemma regex_test_pad: "regex_test (pad 4 y @ ''-'' @ pad 2 m @ ''-'' @ pad 2 d)"
  by (simp add: regex_test_def pad4 pad2 is_digit_pad)

text \<open>
  On a text of the right shape the date check is the calendar check: an overflowing day
  makes the ISO text name another month, so the prefix test fails.
\<close>

lemma isValidDate_chars:
  assumes s: "s = [a, b, c, d, h1, e, f, h2, g, h]"
    and dig: "is_digit a" "is_digit b" "is_digit c" "is_digit d" "is_digit e" "is_digit f"
      "is_digit g" "is_digit h"
    and hy: "h1 = CHR ''-''" "h2 = CHR ''-''"
  shows "isValidDate (Some s) \<longleftrightarrow>
           1 \<le> number [e, f] \<and> number [e, f] \<le> 12 \<and> 1 \<le> number [g, h] \<and>
           number [g, h] \<le> days_in_month (number [a, b, c, d]) (number [e, f])"
proof -
  let ?y = "number [a, b, c, d]" and ?m = "number [e, f]" and ?d = "number [g, h]"
  have re: "regex_test s" using s dig hy by (simp add: regex_test_def)
  have py: "pad 4 ?y = [a, b, c, d]" using dig by (simp add: pad4_number)
  have pm: "pad 2 ?m = [e, f]" using dig by (simp add: pad2_number)
  have pd: "pad 2 ?d = [g, h]" using dig by (simp add: pad2_number)
  have tk: "take 4 s = [a, b, c, d]" "take 2 (drop 5 s) = [e, f]" "drop 8 s = [g, h]"
    using s by simp_all
  have dim: "days_in_month ?y ?m \<le> 31" by (simp add: days_in_month_def)
  have same: "startsWith (toISOString (?y, ?m, ?d)) s"
    using s hy by (simp add: startsWith_def toISOString_def py pm pd)
  have other: "\<not> startsWith (toISOString (y', m', d')) s" if "m' < 100" "m' \<noteq> ?m" for y' m' d'
  proof
    assume "startsWith (toISOString (y', m', d')) s"
    then have "pad 2 m' = [e, f]"
      using s by (simp add: startsWith_def toISOString_def pad4 pad2)
    then have "number (pad 2 m') = ?m" by simp
    with that show False by (simp add: number_pad2)
  qed
  show ?thesis
  proof (cases "?m < 1 \<or> 12 < ?m \<or> ?d < 1 \<or> 31 < ?d")
    case True
    then have "new_Date s = None" by (simp add: new_Date_def tk Let_def)
    moreover from True dim
    have "\<not> (1 \<le> ?m \<and> ?m \<le> 12 \<and> 1 \<le> ?d \<and> ?d \<le> days_in_month ?y ?m)"
      by linarith
    ultimately show ?thesis using re by (simp add: isValidDate_def)
  next
    case range: False
    show ?thesis
    proof (cases "?d \<le> days_in_month ?y ?m")
      case True
      with range have "new_Date s = Some (?y, ?m, ?d)" by (simp add: new_Date_def tk Let_def)
      with same re True range show ?thesis by (simp add: isValidDate_def)
    next
      case False
      with range dim have m12: "?m \<noteq> 12"
        by (auto simp: days_in_month_def)
      with range False have "new_Date s = Some (?y, ?m + 1, ?d - days_in_month ?y ?m)"
        by (simp add: new_Date_def tk Let_def)
      moreover have "\<not> startsWith (toISOString (?y, ?m + 1, ?d - days_in_month ?y ?m)) s"
        using range by (intro other) simp_all
      ultimately show ?thesis using re False by (simp add: isValidDate_def)
    qed
  qed
qed

lemma isValidDate_iff:
  "isValidDate (Some s) \<longleftrightarrow>
     regex_test s \<and>
     1 \<le> number (take 2 (drop 5 s)) \<and> number (take 2 (drop 5 s)) \<le> 12 \<and>
     1 \<le> number (drop 8 s) \<and>
     number (drop 8 s) \<le> days_in_month (number (take 4 s)) (number (take 2 (drop 5 s)))"
proof (cases "regex_test s")
  case False
  then show ?thesis by (simp add: isValidDate_def)
next
  case True
  then have "length s = 10" by (simp add: regex_test_def)
  from length10 [OF this] obtain a b c d h1 e f h2 g h
    where s: "s = [a, b, c, d, h1, e, f, h2, g, h]"
    by (elim exE)
  from True s have "is_digit a" "is_digit b" "is_digit c" "is_digit d" "is_digit e" "is_digit f"
      "is_digit g" "is_digit h" "h1 = CHR ''-''" "h2 = CHR ''-''"
    by (simp_all add: regex_test_def)
  from isValidDate_chars [OF s this] True show ?thesis by (simp add: s)
qed

text \<open>
  \<open>isValidDate\<close> accepts exactly the texts YYYY-MM-DD that name a day of the calendar
  (years 0000 to 9999).
\<close>

lemma isValidDate_calendar:
  "isValidDate (Some s) \<longleftrightarrow>
     (\<exists>y m d. y \<le> 9999 \<and> 1 \<le> m \<and> m \<le> 12 \<and> 1 \<le> d \<and> d \<le> days_in_month y m \<and>
        s = pad 4 y @ ''-'' @ pad 2 m @ ''-'' @ pad 2 d)"
proof
  assume v: "isValidDate (Some s)"
  then have re: "regex_test s" by (simp add: isValidDate_iff)
  then have "length s = 10" by (simp add: regex_test_def)
  from length10 [OF this] obtain a b c d h1 e f h2 g h
    where s: "s = [a, b, c, d, h1, e, f, h2, g, h]"
    by (elim exE)
  from re s have dig: "is_digit a" "is_digit b" "is_digit c" "is_digit d" "is_digit e"
      "is_digit f" "is_digit g" "is_digit h" and hy: "h1 = CHR ''-''" "h2 = CHR ''-''"
    by (simp_all add: regex_test_def)
  let ?y = "number [a, b, c, d]" and ?m = "number [e, f]" and ?d = "number [g, h]"
  have "?y \<le> 9999"
    using digit_lt [OF dig(1)] digit_lt [OF dig(2)] digit_lt [OF dig(3)] digit_lt [OF dig(4)]
    by (simp add: number4)
  moreover from v have "1 \<le> ?m \<and> ?m \<le> 12 \<and> 1 \<le> ?d \<and> ?d \<le> days_in_month ?y ?m"
    by (simp add: isValidDate_iff s)
  moreover have "s = pad 4 ?y @ ''-'' @ pad 2 ?m @ ''-'' @ pad 2 ?d"
    using dig hy by (simp add: s pad4_number pad2_number)
  ultimately
  show "\<exists>y m d. y \<le> 9999 \<and> 1 \<le> m \<and> m \<le> 12 \<and> 1 \<le> d \<and> d \<le> days_in_month y m \<and>
        s = pad 4 y @ ''-'' @ pad 2 m @ ''-'' @ pad 2 d"
    by blast
next
  assume "\<exists>y m d. y \<le> 9999 \<and> 1 \<le> m \<and> m \<le> 12 \<and> 1 \<le> d \<and> d \<le> days_in_month y m \<and>
        s = pad 4 y @ ''-'' @ pad 2 m @ ''-'' @ pad 2 d"
  then obtain y m d where r: "y \<le> 9999" "1 \<le> m" "m \<le> 12" "1 \<le> d" "d \<le> days_in_month y m"
    and s: "s = pad 4 y @ ''-'' @ pad 2 m @ ''-'' @ pad 2 d"
    by blast
  have "days_in_month y m \<le> 31" by (simp add: days_in_month_def)
  with r have lt: "y < 10000" "m < 100" "d < 100" by simp_all
  have tk: "take 4 s = pad 4 y" "take 2 (drop 5 s) = pad 2 m" "drop 8 s = pad 2 d"
    by (simp_all add: s pad4 pad2)
  have "regex_test s" unfolding s by (rule regex_test_pad)
  with r lt show "isValidDate (Some s)"
    unfolding isValidDate_iff tk by (simp add: number_pad4 number_pad2)
qed

lemma isValidDate_examples:
  "isValidDate (Some ''2025-06-01'')" "\<not> isValidDate (Some ''2025-02-30'')"
  "\<not> isValidDate (Some ''2024-13-01'')" "\<not> isValidDate (Some ''2025-6-1'')"
  by (simp_all add: isValidDate_iff regex_test_def is_digit_def number_def days_in_month_def
      leap_def)

section \<open>Validation of an assignment update\<close>

text \<open>
  Both handlers are reached by a request that passes the gateway with the role admin or
  coordinator and has every required field present.
\<close>

lemma put_invigilation_route_staff:
  assumes "authenticateToken secret now req = Next (Some u)" and "role u \<in> set staff"
    and "truthy_int (ad_examinerId (body req))" and "truthy_int (ad_schoolId (body req))"
    and "truthy_string (examDate (body req))" and "truthy_string (examSession (body req))"
    and "truthy_int (ad_subjectId (body req))"
  shows "put_invigilation_route secret now date_in d i req =
           put_invigilation date_in d i (body req)"
proof -
  have "middlewares PUT (Item Invigilation) =
      Some [AuthenticateToken, AuthorizeRole staff,
            ValidateRequest [''examinerId'', ''schoolId'', ''examDate'', ''examSession'',
                             ''subjectId'']]"
    by (simp add: middlewares_def routes_def)
  with assms show ?thesis
    by (simp add: put_invigilation_route_def guard_def authorizeRole_def validateRequest_def
        assignment_field_def)
qed

lemma post_invigilation_route_staff:
  assumes "authenticateToken secret now req = Next (Some u)" and "role u \<in> set staff"
    and "truthy_int (ad_examinerId (body req))" and "truthy_int (ad_schoolId (body req))"
    and "truthy_string (examDate (body req))" and "truthy_string (examSession (body req))"
  shows "post_invigilation_route secret now date_in d req =
           post_invigilation date_in d (body req)"
proof -
  have "middlewares POST (Collection Invigilation) =
      Some [AuthenticateToken, AuthorizeRole staff,
            ValidateRequest [''examinerId'', ''schoolId'', ''examDate'', ''examSession'']]"
    by (simp add: middlewares_def routes_def)
  with assms show ?thesis
    by (simp add: post_invigilation_route_def guard_def authorizeRole_def validateRequest_def
        assignment_field_def)
qed

lemma select_unresolved:
  "int4 v \<Longrightarrow> \<not> resolves v ids \<Longrightarrow> select_1_where_id ids v = Inr 0"
  by (cases v) (auto simp: select_1_where_id_def resolves_def filter_empty_conv)

lemma select_resolved:
  "int4 v \<Longrightarrow> resolves v ids \<Longrightarrow> \<exists>n. select_1_where_id ids v = Inr (Suc n)"
proof -
  assume i: "int4 v" and r: "resolves v ids"
  then obtain k where v: "v = Some k" and k: "k \<in> set ids"
    by (cases v) (simp_all add: resolves_def)
  then have "filter (\<lambda>i. v = Some i) ids \<noteq> []" by (auto simp: filter_empty_conv)
  then have "length (filter (\<lambda>i. v = Some i) ids) \<noteq> 0" by simp
  then obtain n where "length (filter (\<lambda>i. v = Some i) ids) = Suc n"
    by (cases "length (filter (\<lambda>i. v = Some i) ids)") simp_all
  with i show ?thesis by (simp add: select_1_where_id_def)
qed

text \<open>
  C3. The handler of \<open>PUT /api/invigilation/:id\<close> checks the date first: a date that
  fails \<open>isValidDate\<close> is answered 400 "Invalid exam date format" whatever the
  references are. With a valid date, an examiner reference that does not resolve is
  answered 400 "Invalid examiner ID" whatever school and subject are; then the school
  ("Invalid school ID"), then the subject ("Invalid subject ID"). References are integers
  of the id columns' type. The date check accepts exactly the texts YYYY-MM-DD of a real
  calendar day. Nothing is written in any of these cases.
\<close>

theorem put_invigilation_check_order:
  "(\<not> isValidDate (examDate b) \<longrightarrow>
      put_invigilation date_in d i b =
        (d, Response 400 (Failure ''Invalid exam date format. Use YYYY-MM-DD.'')))
   \<and> (isValidDate (examDate b) \<and> int4 (ad_examinerId b) \<and>
       \<not> resolves (ad_examinerId b) (map examiner_id (examiners d)) \<longrightarrow>
      put_invigilation date_in d i b = (d, Response 400 (Failure ''Invalid examiner ID'')))
   \<and> (isValidDate (examDate b) \<and> int4 (ad_examinerId b) \<and>
       resolves (ad_examinerId b) (map examiner_id (examiners d)) \<and> int4 (ad_schoolId b) \<and>
       \<not> resolves (ad_schoolId b) (map school_id (schools d)) \<longrightarrow>
      put_invigilation date_in d i b = (d, Response 400 (Failure ''Invalid school ID'')))
   \<and> (isValidDate (examDate b) \<and> int4 (ad_examinerId b) \<and>
       resolves (ad_examinerId b) (map examiner_id (examiners d)) \<and> int4 (ad_schoolId b) \<and>
       resolves (ad_schoolId b) (map school_id (schools d)) \<and> int4 (ad_subjectId b) \<and>
       \<not> resolves (ad_subjectId b) (map subject_id (subjects d)) \<longrightarrow>
      put_invigilation date_in d i b = (d, Response 400 (Failure ''Invalid subject ID'')))
   \<and> (\<forall>s. isValidDate (Some s) \<longleftrightarrow>
          (\<exists>y m dd. y \<le> 9999 \<and> 1 \<le> m \<and> m \<le> 12 \<and> 1 \<le> dd \<and> dd \<le> days_in_month y m \<and>
             s = pad 4 y @ ''-'' @ pad 2 m @ ''-'' @ pad 2 dd))"
proof (intro conjI impI allI)
  assume "\<not> isValidDate (examDate b)"
  then show "put_invigilation date_in d i b =
      (d, Response 400 (Failure ''Invalid exam date format. Use YYYY-MM-DD.''))"
    by (simp add: put_invigilation_def)
next
  assume "isValidDate (examDate b) \<and> int4 (ad_examinerId b) \<and>
      \<not> resolves (ad_examinerId b) (map examiner_id (examiners d))"
  then show "put_invigilation date_in d i b = (d, Response 400 (Failure ''Invalid examiner ID''))"
    by (simp add: put_invigilation_def select_unresolved)
next
  assume a: "isValidDate (examDate b) \<and> int4 (ad_examinerId b) \<and>
      resolves (ad_examinerId b) (map examiner_id (examiners d)) \<and> int4 (ad_schoolId b) \<and>
      \<not> resolves (ad_schoolId b) (map school_id (schools d))"
  then obtain n where "select_1_where_id (map examiner_id (examiners d)) (ad_examinerId b) = Inr (Suc n)"
    using select_resolved by blast
  with a show "put_invigilation date_in d i b = (d, Response 400 (Failure ''Invalid school ID''))"
    by (simp add: put_invigilation_def select_unresolved)
next
  assume a: "isValidDate (examDate b) \<and> int4 (ad_examinerId b) \<and>
      resolves (ad_examinerId b) (map examiner_id (examiners d)) \<and> int4 (ad_schoolId b) \<and>
      resolves (ad_schoolId b) (map school_id (schools d)) \<and> int4 (ad_subjectId b) \<and>
      \<not> resolves (ad_subjectId b) (map subject_id (subjects d))"
  then obtain n where "select_1_where_id (map examiner_id (examiners d)) (ad_examinerId b) = Inr (Suc n)"
    using select_resolved by blast
  moreover from a obtain k where "select_1_where_id (map school_id (schools d)) (ad_schoolId b) = Inr (Suc k)"
    using select_resolved by blast
  ultimately show "put_invigilation date_in d i b = (d, Response 400 (Failure ''Invalid subject ID''))"
    using a by (simp add: put_invigilation_def select_unresolved)
next
  fix s
  show "isValidDate (Some s) \<longleftrightarrow>
          (\<exists>y m dd. y \<le> 9999 \<and> 1 \<le> m \<and> m \<le> 12 \<and> 1 \<le> dd \<and> dd \<le> days_in_month y m \<and>
             s = pad 4 y @ ''-'' @ pad 2 m @ ''-'' @ pad 2 dd)"
    by (rule isValidDate_calendar)
qed

theorem put_invigilation_check_order_witness:
  "put_invigilation (\<lambda>s. None) sample_db 1
     \<lparr>ad_examinerId = Some 999, ad_schoolId = Some 1, examDate = Some ''2025-06-01'',
      examSession = Some ''Morning'', ad_subjectId = Some 1\<rparr> =
     (sample_db, Response 400 (Failure ''Invalid examiner ID''))
   \<and> put_invigilation (\<lambda>s. None) sample_db 1
       \<lparr>ad_examinerId = Some 1, ad_schoolId = Some 1, examDate = Some ''2025-02-30'',
        examSession = Some ''Morning'', ad_subjectId = Some 1\<rparr> =
     (sample_db, Response 400 (Failure ''Invalid exam date format. Use YYYY-MM-DD.''))
   \<and> put_invigilation (\<lambda>s. None) sample_db 1
       \<lparr>ad_examinerId = Some 1, ad_schoolId = Some 1, examDate = Some ''2024-13-01'',
        examSession = Some ''Morning'', ad_subjectId = Some 1\<rparr> =
     (sample_db, Response 400 (Failure ''Invalid exam date format. Use YYYY-MM-DD.''))
   \<and> put_invigilation (\<lambda>s. None) sample_db 1
       \<lparr>ad_examinerId = Some 1, ad_schoolId = Some 999, examDate = Some ''2025-06-01'',
        examSession = Some ''Morning'', ad_subjectId = Some 999\<rparr> =
     (sample_db, Response 400 (Failure ''Invalid school ID''))
   \<and> put_invigilation (\<lambda>s. None) sample_db 1
       \<lparr>ad_examinerId = Some 1, ad_schoolId = Some 1, examDate = Some ''2025-06-01'',
        examSession = Some ''Morning'', ad_subjectId = Some 999\<rparr> =
     (sample_db, Response 400 (Failure ''Invalid subject ID''))"
proof -
  let ?b1 = "\<lparr>ad_examinerId = Some 999, ad_schoolId = Some 1, examDate = Some ''2025-06-01'',
               examSession = Some ''Morning'', ad_subjectId = Some 1\<rparr>"
  let ?b2 = "\<lparr>ad_examinerId = Some 1, ad_schoolId = Some 1, examDate = Some ''2025-02-30'',
               examSession = Some ''Morning'', ad_subjectId = Some 1\<rparr>"
  let ?b3 = "\<lparr>ad_examinerId = Some 1, ad_schoolId = Some 999, examDate = Some ''2025-06-01'',
               examSession = Some ''Morning'', ad_subjectId = Some 999\<rparr>"
  let ?b5 = "\<lparr>ad_examinerId = Some 1, ad_schoolId = Some 1, examDate = Some ''2024-13-01'',
               examSession = Some ''Morning'', ad_subjectId = Some 1\<rparr>"
  let ?b4 = "\<lparr>ad_examinerId = Some 1, ad_schoolId = Some 1, examDate = Some ''2025-06-01'',
               examSession = Some ''Morning'', ad_subjectId = Some 999\<rparr>"
  have h1: "isValidDate (examDate ?b1) \<and> int4 (ad_examinerId ?b1) \<and>
            \<not> resolves (ad_examinerId ?b1) (map examiner_id (examiners sample_db))"
    by (simp add: isValidDate_examples int4_def resolves_def sample_db_def)
  have h2: "\<not> isValidDate (examDate ?b2)"
    by (simp add: isValidDate_examples)
  have h5: "\<not> isValidDate (examDate ?b5)"
    by (simp add: isValidDate_examples)
  have h3: "isValidDate (examDate ?b3) \<and> int4 (ad_examinerId ?b3) \<and>
            resolves (ad_examinerId ?b3) (map examiner_id (examiners sample_db)) \<and>
            int4 (ad_schoolId ?b3) \<and>
            \<not> resolves (ad_schoolId ?b3) (map school_id (schools sample_db))"
    by (simp add: isValidDate_examples int4_def resolves_def sample_db_def)
  have h4: "isValidDate (examDate ?b4) \<and> int4 (ad_examinerId ?b4) \<and>
            resolves (ad_examinerId ?b4) (map examiner_id (examiners sample_db)) \<and>
            int4 (ad_schoolId ?b4) \<and>
            resolves (ad_schoolId ?b4) (map school_id (schools sample_db)) \<and>
            int4 (ad_subjectId ?b4) \<and>
            \<not> resolves (ad_subjectId ?b4) (map subject_id (subjects sample_db))"
    by (simp add: isValidDate_examples int4_def resolves_def sample_db_def)
  from put_invigilation_check_order [of ?b1 "\<lambda>s. None" sample_db 1] h1
  have r1: "put_invigilation (\<lambda>s. None) sample_db 1 ?b1 =
              (sample_db, Response 400 (Failure ''Invalid examiner ID''))"
    by blast
  from put_invigilation_check_order [of ?b2 "\<lambda>s. None" sample_db 1] h2
  have r2: "put_invigilation (\<lambda>s. None) sample_db 1 ?b2 =
              (sample_db, Response 400 (Failure ''Invalid exam date format. Use YYYY-MM-DD.''))"
    by blast
  from put_invigilation_check_order [of ?b3 "\<lambda>s. None" sample_db 1] h3
  have r3: "put_invigilation (\<lambda>s. None) sample_db 1 ?b3 =
              (sample_db, Response 400 (Failure ''Invalid school ID''))"
    by blast
  from put_invigilation_check_order [of ?b4 "\<lambda>s. None" sample_db 1] h4
  have r4: "put_invigilation (\<lambda>s. None) sample_db 1 ?b4 =
              (sample_db, Response 400 (Failure ''Invalid subject ID''))"
    by blast
  from put_invigilation_check_order [of ?b5 "\<lambda>s. None" sample_db 1] h5
  have r5: "put_invigilation (\<lambda>s. None) sample_db 1 ?b5 =
              (sample_db, Response 400 (Failure ''Invalid exam date format. Use YYYY-MM-DD.''))"
    by blast
  from r1 r2 r5 r3 r4 show ?thesis by (intro conjI)
qed

section \<open>Creation of an assignment\<close>

lemma post_invigilation_created:
  "status (snd (post_invigilation date_in d b)) = 201 \<longleftrightarrow>
     bind_assignment date_in b = None \<and> check_assignment b = None \<and>
     assignments_seq d + 1 \<notin> set (map assignment_id (invigilation_assignments d)) \<and>
     fk_assignment d b = None"
  by (simp add: post_invigilation_def addInvigilationAssignment_def Let_def
      split: option.splits)

lemma post_invigilation_refused:
  "status (snd (post_invigilation date_in d b)) \<noteq> 201 \<Longrightarrow>
   \<exists>e. snd (post_invigilation date_in d b) = Response 500 (FailureOf (Pg e))"
  by (simp add: post_invigilation_def addInvigilationAssignment_def Let_def
      split: option.splits if_splits)

lemma fk_assignment_examiner:
  "ad_examinerId b \<noteq> None \<Longrightarrow> \<not> resolves (ad_examinerId b) (map examiner_id (examiners d)) \<Longrightarrow>
   fk_assignment d b = Some foreign_key_violation"
  by (cases "ad_examinerId b") (simp_all add: fk_assignment_def references_def resolves_def)

text \<open>
  C7. The handler of \<open>POST /api/invigilation\<close> answers 201 exactly when the INSERT goes
  through (the parameters bind, the row passes its column checks, the id is new, the
  foreign keys hold) and otherwise 500 with the engine's error: it never calls
  \<open>isValidDate\<close> and never looks a reference up. A reference to an examiner that does not
  exist is refused by the foreign key, as a 500.
\<close>

theorem post_invigilation_storage_only:
  "(status (snd (post_invigilation date_in d b)) = 201 \<longleftrightarrow>
      bind_assignment date_in b = None \<and> check_assignment b = None \<and>
      assignments_seq d + 1 \<notin> set (map assignment_id (invigilation_assignments d)) \<and>
      fk_assignment d b = None)
   \<and> (status (snd (post_invigilation date_in d b)) \<noteq> 201 \<longrightarrow>
        (\<exists>e. snd (post_invigilation date_in d b) = Response 500 (FailureOf (Pg e))))
   \<and> (bind_assignment date_in b = None \<and> check_assignment b = None \<and>
       assignments_seq d + 1 \<notin> set (map assignment_id (invigilation_assignments d)) \<and>
       ad_examinerId b \<noteq> None \<and>
       \<not> resolves (ad_examinerId b) (map examiner_id (examiners d)) \<longrightarrow>
        snd (post_invigilation date_in d b) = Response 500 (FailureOf (Pg foreign_key_violation)))"
proof (intro conjI impI)
  show "status (snd (post_invigilation date_in d b)) = 201 \<longleftrightarrow>
      bind_assignment date_in b = None \<and> check_assignment b = None \<and>
      assignments_seq d + 1 \<notin> set (map assignment_id (invigilation_assignments d)) \<and>
      fk_assignment d b = None"
    by (rule post_invigilation_created)
next
  assume "status (snd (post_invigilation date_in d b)) \<noteq> 201"
  then show "\<exists>e. snd (post_invigilation date_in d b) = Response 500 (FailureOf (Pg e))"
    by (rule post_invigilation_refused)
next
  assume a: "bind_assignment date_in b = None \<and> check_assignment b = None \<and>
       assignments_seq d + 1 \<notin> set (map assignment_id (invigilation_assignments d)) \<and>
       ad_examinerId b \<noteq> None \<and>
       \<not> resolves (ad_examinerId b) (map examiner_id (examiners d))"
  then have "fk_assignment d b = Some foreign_key_violation"
    by (simp add: fk_assignment_examiner)
  with a show "snd (post_invigilation date_in d b) =
      Response 500 (FailureOf (Pg foreign_key_violation))"
    by (simp add: post_invigilation_def addInvigilationAssignment_def Let_def)
qed

theorem post_invigilation_storage_only_witness:
  "\<not> isValidDate (Some ''2025-6-1'')
   \<and> status (snd (post_invigilation (\<lambda>s. if s = ''2025-6-1'' then Some 20250601 else None)
        sample_db
        \<lparr>ad_examinerId = Some 1, ad_schoolId = Some 1, examDate = Some ''2025-6-1'',
         examSession = Some ''Morning'', ad_subjectId = Some 1\<rparr>)) = 201
   \<and> snd (put_invigilation (\<lambda>s. if s = ''2025-6-1'' then Some 20250601 else None)
        sample_db 1
        \<lparr>ad_examinerId = Some 1, ad_schoolId = Some 1, examDate = Some ''2025-6-1'',
         examSession = Some ''Morning'', ad_subjectId = Some 1\<rparr>) =
       Response 400 (Failure ''Invalid exam date format. Use YYYY-MM-DD.'')
   \<and> snd (post_invigilation (\<lambda>s. if s = ''2025-6-1'' then Some 20250601 else None)
        sample_db
        \<lparr>ad_examinerId = Some 999, ad_schoolId = Some 1, examDate = Some ''2025-6-1'',
         examSession = Some ''Morning'', ad_subjectId = Some 1\<rparr>) =
       Response 500 (FailureOf (Pg foreign_key_violation))"
proof -
  let ?date_in = "\<lambda>s. if s = ''2025-6-1'' then Some (20250601 :: int) else None"
  let ?b1 = "\<lparr>ad_examinerId = Some 1, ad_schoolId = Some 1, examDate = Some ''2025-6-1'',
               examSession = Some ''Morning'', ad_subjectId = Some 1\<rparr>"
  let ?b2 = "\<lparr>ad_examinerId = Some 999, ad_schoolId = Some 1, examDate = Some ''2025-6-1'',
               examSession = Some ''Morning'', ad_subjectId = Some 1\<rparr>"
  have bind: "bind_assignment ?date_in ?b1 = None" "bind_assignment ?date_in ?b2 = None"
    by (simp_all add: bind_assignment_def input_assignment_def int4_def varchar_def)
  have chk: "check_assignment ?b1 = None" "check_assignment ?b2 = None"
    by (simp_all add: check_assignment_def)
  have fresh: "assignments_seq sample_db + 1 \<notin>
      set (map assignment_id (invigilation_assignments sample_db))"
    by (simp add: sample_db_def)
  have fk: "fk_assignment sample_db ?b1 = None"
    by (simp add: fk_assignment_def references_def sample_db_def)
  have unknown: "ad_examinerId ?b2 \<noteq> None \<and>
      \<not> resolves (ad_examinerId ?b2) (map examiner_id (examiners sample_db))"
    by (simp add: resolves_def sample_db_def)
  from post_invigilation_storage_only [of ?date_in sample_db ?b1] bind(1) chk(1) fresh fk
  have r1: "status (snd (post_invigilation ?date_in sample_db ?b1)) = 201"
    by blast
  from post_invigilation_storage_only [of ?date_in sample_db ?b2] bind(2) chk(2) fresh unknown
  have r2: "snd (post_invigilation ?date_in sample_db ?b2) =
      Response 500 (FailureOf (Pg foreign_key_violation))"
    by blast
  have r3: "snd (put_invigilation ?date_in sample_db 1 ?b1) =
      Response 400 (Failure ''Invalid exam date format. Use YYYY-MM-DD.'')"
    by (simp add: put_invigilation_def isValidDate_examples)
  from r1 r2 r3 isValidDate_examples(4) show ?thesis by (intro conjI)
qed


section \<open>Reading answer sheets\<close>

lemma mset_insert_desc: "mset (insert_desc r xs) = add_mset r (mset xs)"
  by (induction xs) simp_all

lemma mset_foldr_insert_desc: "mset (foldr insert_desc xs []) = mset xs"
  by (induction xs) (simp_all add: mset_insert_desc)

lemma mset_getAllAnswerSheets: "mset (getAllAnswerSheets d) = mset (evaluation_summary d)"
  by (simp add: getAllAnswerSheets_def mset_foldr_insert_desc)

lemma guard_authenticated_only:
  "middlewares m p = Some [AuthenticateToken] \<Longrightarrow>
   authenticateToken secret now req = Next (Some u) \<Longrightarrow>
   guard secret now truthy m p req = Inr (Some u)"
  by (simp add: guard_def)

lemma guard_open:
  "middlewares m p = Some [] \<Longrightarrow> guard secret now truthy m p req = Inr None"
  by (simp add: guard_def)

lemma answer_sheets_route_authenticated:
  "authenticateToken secret now req = Next (Some u) \<Longrightarrow>
   answer_sheets_route secret now d req = get_answer_sheets d (Some u)"
  by (simp add: answer_sheets_route_def guard_authenticated_only middlewares_def routes_def)

lemma getAnswerSheetsByExaminer_own:
  "int4 (Some n) \<Longrightarrow>
   getAnswerSheetsByExaminer d (Some n) =
     Inr (filter (\<lambda>r. es_examiner_id r = Some n) (evaluation_summary d))"
  by (simp add: getAnswerSheetsByExaminer_def)

text \<open>
  C8. For a request that passes the gateway with the identity \<open>u\<close>: when the role is
  examiner and the token carries an examiner reference, the answer is 200 with exactly the
  rows of the evaluation summary whose examiner is that reference; whatever list an examiner
  is sent holds only such rows; any other role is sent every row of the evaluation summary
  (ordered by date).
\<close>

theorem answer_sheets_scoped:
  "authenticateToken secret now req = Next (Some u) \<longrightarrow>
     (role u = ''examiner'' \<and> truthy_int (examinerId u) \<and> int4 (examinerId u) \<longrightarrow>
        answer_sheets_route secret now d req =
          Response 200 (Sheets (filter (\<lambda>r. es_examiner_id r = examinerId u)
                                  (evaluation_summary d))))
     \<and> (role u = ''examiner'' \<longrightarrow>
          (\<forall>rows. content (answer_sheets_route secret now d req) = Sheets rows \<longrightarrow>
             (\<forall>r \<in> set rows. es_examiner_id r = examinerId u)))
     \<and> (role u \<noteq> ''examiner'' \<longrightarrow>
          (\<exists>rows. answer_sheets_route secret now d req = Response 200 (Sheets rows) \<and>
             mset rows = mset (evaluation_summary d)))"
proof (intro impI conjI allI)
  assume a: "authenticateToken secret now req = Next (Some u)"
  note route = answer_sheets_route_authenticated [OF a]
  {
    assume e: "role u = ''examiner'' \<and> truthy_int (examinerId u) \<and> int4 (examinerId u)"
    then obtain n where n: "examinerId u = Some n" by (cases "examinerId u") (simp_all add: truthy_int_def)
    with e show "answer_sheets_route secret now d req =
        Response 200 (Sheets (filter (\<lambda>r. es_examiner_id r = examinerId u) (evaluation_summary d)))"
      by (simp add: route get_answer_sheets_def getAnswerSheetsByExaminer_own)
  }
  {
    fix rows
    assume e: "role u = ''examiner''"
      and c: "content (answer_sheets_route secret now d req) = Sheets rows"
    show "\<forall>r \<in> set rows. es_examiner_id r = examinerId u"
    proof (cases "truthy_int (examinerId u) \<and> int4 (examinerId u)")
      case True
      then obtain n where n: "examinerId u = Some n"
        by (cases "examinerId u") (simp_all add: truthy_int_def)
      with True e c have "rows = filter (\<lambda>r. es_examiner_id r = Some n) (evaluation_summary d)"
        by (simp add: route get_answer_sheets_def getAnswerSheetsByExaminer_own)
      with n show ?thesis by simp
    next
      case False
      with e c show ?thesis
        by (auto simp: route get_answer_sheets_def getAnswerSheetsByExaminer_def
            split: if_splits)
    qed
  }
  {
    assume "role u \<noteq> ''examiner''"
    then have "answer_sheets_route secret now d req = Response 200 (Sheets (getAllAnswerSheets d))"
      by (simp add: route get_answer_sheets_def)
    then show "\<exists>rows. answer_sheets_route secret now d req = Response 200 (Sheets rows) \<and>
        mset rows = mset (evaluation_summary d)"
      by (simp add: mset_getAllAnswerSheets)
  }
qed

lemma evaluation_summary_sample:
  "evaluation_summary sample_db =
     [\<lparr>es_sheet_id = 1, es_answer_book_id = ''AB2024001'',
       es_student_roll_number = Some ''2024001001'', es_student_name = ''Amit Patel'',
       es_subject_name = ''Mathematics'', es_examiner_name = ''Dr. Rajesh Kumar'',
       es_marks_assigned = Some 45, es_evaluation_date = Some 20240520,
       es_remarks = Some ''Good performance'', es_examiner_id = Some 1, es_subject_id = Some 1\<rparr>,
      \<lparr>es_sheet_id = 2, es_answer_book_id = ''AB2024002'',
       es_student_roll_number = Some ''2024001002'', es_student_name = ''Sneha'',
       es_subject_name = ''Physics'', es_examiner_name = ''Mrs. Priya Sharma'',
       es_marks_assigned = Some 48, es_evaluation_date = Some 20240530,
       es_remarks = Some ''Excellent'', es_examiner_id = Some 2, es_subject_id = Some 2\<rparr>]"
  by (simp add: evaluation_summary_def sample_db_def)

theorem answer_sheets_scoped_witness:
  "answer_sheets_route ''cbse-jwt-secret-key'' 100 sample_db
     \<lparr>authorization = Some (bearer (jwt_sign \<lparr>userId = 2, username = ''ex'', role = ''examiner'',
                                              examinerId = Some 1, schoolId = None\<rparr>
                                      ''cbse-jwt-secret-key'' 0)),
      body = (), sessionID = ''s''\<rparr> =
     Response 200 (Sheets
       [\<lparr>es_sheet_id = 1, es_answer_book_id = ''AB2024001'',
         es_student_roll_number = Some ''2024001001'', es_student_name = ''Amit Patel'',
         es_subject_name = ''Mathematics'', es_examiner_name = ''Dr. Rajesh Kumar'',
         es_marks_assigned = Some 45, es_evaluation_date = Some 20240520,
         es_remarks = Some ''Good performance'', es_examiner_id = Some 1,
         es_subject_id = Some 1\<rparr>])"
proof -
  let ?u = "\<lparr>userId = 2, username = ''ex'', role = ''examiner'', examinerId = Some 1,
               schoolId = None\<rparr>"
  let ?req = "\<lparr>authorization = Some (bearer (jwt_sign ?u ''cbse-jwt-secret-key'' 0)),
                body = (), sessionID = ''s''\<rparr>"
  have a: "authenticateToken ''cbse-jwt-secret-key'' 100 ?req = Next (Some ?u)"
    by (simp add: authenticateToken_def split_sp_bearer bearer_nonempty jwt_verify_sign)
  have h: "role ?u = ''examiner'' \<and> truthy_int (examinerId ?u) \<and> int4 (examinerId ?u)"
    by (simp add: truthy_int_def int4_def)
  from answer_sheets_scoped [of "''cbse-jwt-secret-key''" 100 ?req ?u sample_db] a h
  have "answer_sheets_route ''cbse-jwt-secret-key'' 100 sample_db ?req =
      Response 200 (Sheets (filter (\<lambda>r. es_examiner_id r = examinerId ?u)
                              (evaluation_summary sample_db)))"
    by blast
  then show ?thesis by (simp add: evaluation_summary_sample)
qed

text \<open>
  C9. \<open>GET /api/answer-sheets/examiner/:examinerId\<close> declares no middleware: whatever the
  request carries (no header, a bad token, anybody's token), it is answered 200 with all
  the rows of the evaluation summary of that examiner, which is what the examiner's own
  token obtains from \<open>GET /api/answer-sheets\<close>.
\<close>

theorem answer_sheets_by_examiner_open:
  "int4 (Some n) \<longrightarrow>
     answer_sheets_by_examiner_route secret now d n req =
       Response 200 (Sheets (filter (\<lambda>r. es_examiner_id r = Some n) (evaluation_summary d)))
     \<and> (\<forall>secret' now' req' u.
          authenticateToken secret' now' req' = Next (Some u) \<and> role u = ''examiner'' \<and>
          examinerId u = Some n \<and> n \<noteq> 0 \<longrightarrow>
          answer_sheets_by_examiner_route secret now d n req =
            answer_sheets_route secret' now' d req')"
proof (intro impI conjI allI)
  assume i: "int4 (Some n)"
  have g: "guard secret now (\<lambda>b f. False) GET ByExaminer req = Inr None"
    by (simp add: guard_open middlewares_def routes_def)
  from i show open_route: "answer_sheets_by_examiner_route secret now d n req =
      Response 200 (Sheets (filter (\<lambda>r. es_examiner_id r = Some n) (evaluation_summary d)))"
    by (simp add: answer_sheets_by_examiner_route_def g get_answer_sheets_by_examiner_def
        getAnswerSheetsByExaminer_own)
  fix secret' now' and req' :: "'c request" and u
  assume a: "authenticateToken secret' now' req' = Next (Some u) \<and> role u = ''examiner'' \<and>
      examinerId u = Some n \<and> n \<noteq> 0"
  with i have "answer_sheets_route secret' now' d req' =
      Response 200 (Sheets (filter (\<lambda>r. es_examiner_id r = Some n) (evaluation_summary d)))"
    by (simp add: answer_sheets_route_authenticated get_answer_sheets_def truthy_int_def
        getAnswerSheetsByExaminer_own)
  with open_route show "answer_sheets_by_examiner_route secret now d n req =
      answer_sheets_route secret' now' d req'"
    by simp
qed

theorem answer_sheets_by_examiner_open_witness:
  "answer_sheets_by_examiner_route ''cbse-jwt-secret-key'' 100 sample_db 1
     \<lparr>authorization = None, body = (), sessionID = ''anonymous''\<rparr> =
     Response 200 (Sheets
       [\<lparr>es_sheet_id = 1, es_answer_book_id = ''AB2024001'',
         es_student_roll_number = Some ''2024001001'', es_student_name = ''Amit Patel'',
         es_subject_name = ''Mathematics'', es_examiner_name = ''Dr. Rajesh Kumar'',
         es_marks_assigned = Some 45, es_evaluation_date = Some 20240520,
         es_remarks = Some ''Good performance'', es_examiner_id = Some 1,
         es_subject_id = Some 1\<rparr>])
   \<and> authenticateToken ''cbse-jwt-secret-key'' 100
       \<lparr>authorization = None, body = (), sessionID = ''anonymous''\<rparr> =
     Respond (Response 401 (Error ''Access token required''))"
proof -
  let ?req = "\<lparr>authorization = None, body = (), sessionID = ''anonymous''\<rparr>"
  have i: "int4 (Some 1)" by (simp add: int4_def)
  from answer_sheets_by_examiner_open [of 1 "''cbse-jwt-secret-key''" 100 sample_db ?req] i
  have "answer_sheets_by_examiner_route ''cbse-jwt-secret-key'' 100 sample_db 1 ?req =
      Response 200 (Sheets (filter (\<lambda>r. es_examiner_id r = Some 1)
                              (evaluation_summary sample_db)))"
    by blast
  moreover have "authenticateToken ''cbse-jwt-secret-key'' 100 ?req =
      Respond (Response 401 (Error ''Access token required''))"
    by (simp add: authenticateToken_def)
  ultimately show ?thesis by (simp add: evaluation_summary_sample)
qed

section \<open>Registration and login\<close>

lemma first_error_None: "first_error cs = None \<longleftrightarrow> (\<forall>c \<in> set cs. fst c)"
  by (induction cs) (auto split: if_splits)

text \<open>
  A role that passes the CHECK was stored whole: the three roles are shorter than the
  column is wide.
\<close>

lemma role_stored:
  assumes "take 20 r \<in> {''admin'', ''coordinator'', ''examiner''}"
  shows "take 20 r = r"
proof -
  have short: "take 20 r = r" if x: "take 20 r = x" "length x < 20" for x
  proof -
    from x(1) have "length (take 20 r) = length x" by (rule arg_cong)
    with x(2) have "length r < 20" by simp
    then show ?thesis by simp
  qed
  from assms consider "take 20 r = ''admin''" | "take 20 r = ''coordinator''"
    | "take 20 r = ''examiner''"
    by blast
  then show ?thesis
  proof cases
    case 1
    then show ?thesis by (rule short) simp
  next
    case 2
    then show ?thesis by (rule short) simp
  next
    case 3
    then show ?thesis by (rule short) simp
  qed
qed

lemma createUser_success:
  assumes "createUser d ud = (d', Inr u)"
  shows "u = \<lparr>user_id = users_seq d + 1, user_username = take 50 (ud_username ud),
              user_email = take 100 (ud_email ud),
              password_hash = bcrypt_hash (ud_password ud),
              user_role = ud_role ud, user_examiner_id = ud_examinerId ud,
              user_school_id = ud_schoolId ud, is_active = True, last_login = None\<rparr>"
    and "d' = d\<lparr>users_seq := users_seq d + 1, users := users d @ [u]\<rparr>"
    and "take 50 (ud_username ud) \<notin> set (map user_username (users d))"
    and "take 100 (ud_email ud) \<notin> set (map user_email (users d))"
    and "ud_role ud \<in> {''admin'', ''coordinator'', ''examiner''}"
    and "references (ud_examinerId ud) (map examiner_id (examiners d))"
proof -
  from assms have ok: "int4 (ud_examinerId ud) \<and> int4 (ud_schoolId ud)"
      "varchar 50 (Some (ud_username ud)) \<and> varchar 100 (Some (ud_email ud)) \<and>
       varchar 20 (Some (ud_role ud))"
    by (auto simp: createUser_def Let_def split: if_splits)
  with assms have chk: "take 20 (ud_role ud) \<in> {''admin'', ''coordinator'', ''examiner''}"
      "users_seq d + 1 \<notin> set (map user_id (users d))"
      "take 50 (ud_username ud) \<notin> set (map user_username (users d))"
      "take 100 (ud_email ud) \<notin> set (map user_email (users d))"
      "references (ud_examinerId ud) (map examiner_id (examiners d))"
      "references (ud_schoolId ud) (map school_id (schools d))"
    by (auto simp: createUser_def Let_def first_error_None split: option.splits if_splits)
  note role = role_stored [OF chk(1)]
  from assms ok chk
  have "d' = d\<lparr>users_seq := users_seq d + 1, users := users d @ [u]\<rparr> \<and>
        u = \<lparr>user_id = users_seq d + 1, user_username = take 50 (ud_username ud),
             user_email = take 100 (ud_email ud),
             password_hash = bcrypt_hash (ud_password ud),
             user_role = take 20 (ud_role ud), user_examiner_id = ud_examinerId ud,
             user_school_id = ud_schoolId ud, is_active = True, last_login = None\<rparr>"
    by (auto simp: createUser_def Let_def first_error_None split: option.splits if_splits)
  with role chk
  show "u = \<lparr>user_id = users_seq d + 1, user_username = take 50 (ud_username ud),
              user_email = take 100 (ud_email ud),
              password_hash = bcrypt_hash (ud_password ud),
              user_role = ud_role ud, user_examiner_id = ud_examinerId ud,
              user_school_id = ud_schoolId ud, is_active = True, last_login = None\<rparr>"
    and "d' = d\<lparr>users_seq := users_seq d + 1, users := users d @ [u]\<rparr>"
    and "take 50 (ud_username ud) \<notin> set (map user_username (users d))"
    and "take 100 (ud_email ud) \<notin> set (map user_email (users d))"
    and "ud_role ud \<in> {''admin'', ''coordinator'', ''examiner''}"
    and "references (ud_examinerId ud) (map examiner_id (examiners d))"
    by simp_all
qed

lemma addExaminer_success:
  assumes "addExaminer d ed = (d', Inr e)"
  shows "e = \<lparr>examiner_id = examiners_seq d + 1,
              examiner_name = take 255 (the (examinerName ed)),
              examiner_school_id = ed_schoolId ed,
              qualification = map_option (take 255) (ed_qualification ed),
              examiner_subject_id = ed_subjectId ed,
              contact_number = map_option (take 15) (contactNumber ed),
              examiner_email = map_option (take 255) (ed_email ed),
              experience_years = experienceYears ed\<rparr>"
    and "d' = d\<lparr>examiners_seq := examiners_seq d + 1, examiners := examiners d @ [e]\<rparr>"
    and "examiners_seq d + 1 \<notin> set (map examiner_id (examiners d))"
  using assms
  by (auto simp: addExaminer_def Let_def first_error_None split: if_splits option.splits)



lemma login_token:
  assumes "login secret t0 srv req = (srv1, Response 200 (LoginSuccessful token identity mail))"
  shows "token = jwt_sign identity secret t0"
  using assms
  by (auto simp: login_def Let_def split: option.splits if_splits prod.splits)

text \<open>What a successful registration did: which rows it wrote, from which fields.\<close>

lemma register_success:
  assumes "register d b = (d1, Response 201 c)"
  shows "\<exists>n mail pw d0 fin u.
           reg_username b = Some n \<and> reg_email b = Some mail \<and> reg_password b = Some pw \<and>
           n \<noteq> [] \<and> pw \<noteq> [] \<and>
           createUser d0
             \<lparr>ud_username = n, ud_email = mail, ud_password = pw,
              ud_role = (if truthy_string (reg_role b) then the (reg_role b) else ''examiner''),
              ud_examinerId = fin, ud_schoolId = reg_schoolId b\<rparr> = (d1, Inr u) \<and>
           c = Registered (user_id u) (user_username u) (user_email u) (user_role u) \<and>
           (if reg_role b = Some ''examiner'' \<and> \<not> truthy_int (reg_examinerId b)
            then \<exists>e. addExaminer d
                        \<lparr>examinerName = Some n,
                         ed_schoolId =
                           (if truthy_int (reg_schoolId b) then reg_schoolId b else Some 1),
                         ed_qualification = Some ''Not specified'',
                         ed_subjectId = Some 1,
                         contactNumber = None,
                         ed_email = Some mail,
                         experienceYears = Some 0\<rparr> = (d0, Inr e) \<and>
                      fin = Some (examiner_id e)
            else d0 = d \<and> fin = reg_examinerId b)"
proof -
  from assms obtain n mail pw where f: "reg_username b = Some n" "reg_email b = Some mail"
      "reg_password b = Some pw"
    by (auto simp: register_def split: option.splits)
  from assms f have ne: "n \<noteq> []" "mail \<noteq> []" "pw \<noteq> []" "\<not> length pw < 6"
      "getUserByUsername d n = None" "getUserByEmail d mail = None"
    by (auto simp: register_def split: if_splits)
  let ?ed = "\<lparr>examinerName = Some n,
              ed_schoolId = (if truthy_int (reg_schoolId b) then reg_schoolId b else Some 1),
              ed_qualification = Some ''Not specified'', ed_subjectId = Some 1,
              contactNumber = None, ed_email = Some mail, experienceYears = Some 0\<rparr>"
  let ?ud = "\<lambda>fin. \<lparr>ud_username = n, ud_email = mail, ud_password = pw,
              ud_role = (if truthy_string (reg_role b) then the (reg_role b) else ''examiner''),
              ud_examinerId = fin, ud_schoolId = reg_schoolId b\<rparr>"
  show ?thesis
  proof (cases "reg_role b = Some ''examiner'' \<and> \<not> truthy_int (reg_examinerId b)")
    case True
    obtain d0 res where ae: "addExaminer d ?ed = (d0, res)" by (cases "addExaminer d ?ed")
    with assms f ne True obtain e where e: "res = Inr e"
      by (cases res) (simp_all add: register_def)
    obtain d2 res2 where cu: "createUser d0 (?ud (Some (examiner_id e))) = (d2, res2)"
      by (cases "createUser d0 (?ud (Some (examiner_id e)))")
    with assms f ne True ae e obtain u where u: "res2 = Inr u"
      by (cases res2) (simp_all add: register_def)
    from assms f ne True ae e cu u
    have "d2 = d1" "c = Registered (user_id u) (user_username u) (user_email u) (user_role u)"
      by (simp_all add: register_def)
    with f ne True ae e cu u show ?thesis by auto
  next
    case False
    obtain d2 res2 where cu: "createUser d (?ud (reg_examinerId b)) = (d2, res2)"
      by (cases "createUser d (?ud (reg_examinerId b))")
    with assms f ne False obtain u where u: "res2 = Inr u"
      by (cases res2) (auto simp: register_def)
    from assms f ne False cu u
    have "d2 = d1" "c = Registered (user_id u) (user_username u) (user_email u) (user_role u)"
      by (auto simp: register_def)
    with f ne False cu u show ?thesis by auto
  qed
qed

lemma bcrypt_compare_hash: "bcrypt_compare pw (bcrypt_hash pw)"
  by (simp add: bcrypt_compare_def bcrypt_hash_def)





section \<open>Inactive users\<close>

lemma inactive_filtered_out:
  assumes "u \<in> set xs" and "\<not> is_active u" and "distinct (map f xs)"
  shows "filter (\<lambda>x. f x = f u \<and> is_active x) xs = []"
proof -
  from assms(3) have "inj_on f (set xs)" by (simp add: distinct_map)
  with assms(1) have "x = u" if "x \<in> set xs" "f x = f u" for x
    using that by (auto dest: inj_onD)
  with assms(2) show ?thesis by (auto simp: filter_empty_conv)
qed

text \<open>
  C6. A user whose active flag is false, in a table whose usernames are unique: the lookup
  by username finds nobody; a login with that username leaves the server as it was and is
  never answered 200, whatever the password; with a username and a password present it is
  answered 401 "Invalid credentials". In a table whose emails are unique the lookup by
  email finds nobody either.
\<close>

theorem inactive_user_cannot_login:
  "u \<in> set (users (db srv)) \<and> \<not> is_active u \<and>
   distinct (map user_username (users (db srv))) \<longrightarrow>
     getUserByUsername (db srv) (user_username u) = None
     \<and> fst (login secret now srv
              \<lparr>authorization = a,
               body = \<lparr>cred_username = Some (user_username u), cred_password = pw\<rparr>,
               sessionID = sid\<rparr>) = srv
     \<and> status (snd (login secret now srv
              \<lparr>authorization = a,
               body = \<lparr>cred_username = Some (user_username u), cred_password = pw\<rparr>,
               sessionID = sid\<rparr>)) \<noteq> 200
     \<and> (user_username u \<noteq> [] \<and> truthy_string pw \<longrightarrow>
          snd (login secret now srv
              \<lparr>authorization = a,
               body = \<lparr>cred_username = Some (user_username u), cred_password = pw\<rparr>,
               sessionID = sid\<rparr>) = Response 401 (Error ''Invalid credentials''))
     \<and> (distinct (map user_email (users (db srv))) \<longrightarrow>
          getUserByEmail (db srv) (user_email u) = None)"
proof
  assume a: "u \<in> set (users (db srv)) \<and> \<not> is_active u \<and>
      distinct (map user_username (users (db srv)))"
  then have g: "getUserByUsername (db srv) (user_username u) = None"
    by (simp add: getUserByUsername_def inactive_filtered_out [where f = user_username])
  have e: "getUserByEmail (db srv) (user_email u) = None"
    if "distinct (map user_email (users (db srv)))"
    using a that by (simp add: getUserByEmail_def inactive_filtered_out [where f = user_email])
  let ?l = "login secret now srv
              \<lparr>authorization = a,
               body = \<lparr>cred_username = Some (user_username u), cred_password = pw\<rparr>,
               sessionID = sid\<rparr>"
  from g have "fst ?l = srv" "status (snd ?l) \<noteq> 200"
    by (simp_all add: login_def split: option.splits)
  moreover from g have "snd ?l = Response 401 (Error ''Invalid credentials'')"
    if "user_username u \<noteq> [] \<and> truthy_string pw"
    using that by (cases pw) (simp_all add: login_def truthy_string_def)
  ultimately show "getUserByUsername (db srv) (user_username u) = None
     \<and> fst ?l = srv \<and> status (snd ?l) \<noteq> 200
     \<and> (user_username u \<noteq> [] \<and> truthy_string pw \<longrightarrow>
          snd ?l = Response 401 (Error ''Invalid credentials''))
     \<and> (distinct (map user_email (users (db srv))) \<longrightarrow>
          getUserByEmail (db srv) (user_email u) = None)"
    using g e by blast
qed

theorem inactive_user_cannot_login_witness:
  "snd (login ''cbse-jwt-secret-key'' 1000
          \<lparr>db = sample_db\<lparr>users := users sample_db @
                  [\<lparr>user_id = 2, user_username = ''retired'',
                    user_email = ''retired@cbse.edu.in'',
                    password_hash = bcrypt_hash ''secret1'', user_role = ''examiner'',
                    user_examiner_id = Some 1, user_school_id = None, is_active = False,
                    last_login = None\<rparr>]\<rparr>,
           sessions = Map.empty\<rparr>
          \<lparr>authorization = None,
           body = \<lparr>cred_username = Some ''retired'', cred_password = Some ''secret1''\<rparr>,
           sessionID = ''s1''\<rparr>) =
     Response 401 (Error ''Invalid credentials'')
   \<and> bcrypt_compare ''secret1'' (bcrypt_hash ''secret1'')"
proof -
  let ?u = "\<lparr>user_id = 2, user_username = ''retired'', user_email = ''retired@cbse.edu.in'',
              password_hash = bcrypt_hash ''secret1'', user_role = ''examiner'',
              user_examiner_id = Some 1, user_school_id = None, is_active = False,
              last_login = None\<rparr>"
  let ?srv = "\<lparr>db = sample_db\<lparr>users := users sample_db @ [?u]\<rparr>, sessions = Map.empty\<rparr>"
  have h: "?u \<in> set (users (db ?srv)) \<and> \<not> is_active ?u \<and>
      distinct (map user_username (users (db ?srv)))"
    by (simp add: sample_db_def)
  have p: "user_username ?u \<noteq> [] \<and> truthy_string (Some ''secret1'')"
    by (simp add: truthy_string_def)
  from inactive_user_cannot_login
    [of ?u ?srv "''cbse-jwt-secret-key''" 1000 None "Some ''secret1''" "''s1''"] h p
  have "snd (login ''cbse-jwt-secret-key'' 1000 ?srv
          \<lparr>authorization = None,
           body = \<lparr>cred_username = Some (user_username ?u), cred_password = Some ''secret1''\<rparr>,
           sessionID = ''s1''\<rparr>) = Response 401 (Error ''Invalid credentials'')"
    by blast
  then show ?thesis by (simp add: bcrypt_compare_hash)
qed


section \<open>Logout\<close>

lemma login_session:
  assumes "login secret t0 srv req = (srv1, Response 200 (LoginSuccessful token identity mail))"
  shows "sessions srv1 (sessionID req) =
           Some \<lparr>session_userId = userId identity, session_username = username identity,
                 session_role = role identity\<rparr>"
  using assms
  by (auto simp: login_def Let_def split: option.splits if_splits prod.splits)

lemma logout_with_token:
  assumes "authenticateToken secret now req = Next (Some u)"
  shows "logout secret now srv req =
           (srv\<lparr>sessions := (sessions srv)(sessionID req := None)\<rparr>,
            Response 200 (Message ''Logout successful''))"
proof -
  have "middlewares POST (Auth ''logout'') = Some [AuthenticateToken]"
    by (simp add: middlewares_def routes_def)
  from guard_authenticated_only [OF this assms]
  show ?thesis by (simp add: logout_def destroy_def)
qed

text \<open>Whatever the request, a logout leaves the tables and every other session as they were.\<close>

lemma logout_frame:
  "db (fst (logout secret now srv req)) = db srv \<and>
   (\<forall>s. s \<noteq> sessionID req \<longrightarrow> sessions (fst (logout secret now srv req)) s = sessions srv s)"
  by (simp add: logout_def destroy_def split: sum.splits)

text \<open>
  C4. After a login answered 200, a logout that presents the token before its expiry is
  answered 200 and removes the session record of that client; the tables and every other
  session stay as they were (and the tables do after any logout request at all). The
  gateway's decision is a function of the secret, the clock and the request alone, so for
  every instant before the expiry, on the server as the logout left it, the token still
  passes the gateway with the identity of the login and a protected route still serves it.
\<close>

theorem logout_leaves_token_valid:
  "login secret t0 srv req = (srv1, Response 200 (LoginSuccessful token identity mail)) \<and>
   t1 < t0 + 86400 \<and> t < t0 + 86400 \<longrightarrow>
     sessions srv1 (sessionID req) \<noteq> None
     \<and> db (fst (logout secret t1 srv1 req')) = db srv1
     \<and> logout secret t1 srv1
          \<lparr>authorization = Some (bearer token), body = (), sessionID = sessionID req\<rparr> =
        (srv1\<lparr>sessions := (sessions srv1)(sessionID req := None)\<rparr>,
         Response 200 (Message ''Logout successful''))
     \<and> authenticateToken secret t
          \<lparr>authorization = Some (bearer token), body = (), sessionID = sid\<rparr> =
        Next (Some identity)
     \<and> verify secret t \<lparr>authorization = Some (bearer token), body = (), sessionID = sid\<rparr> =
        Response 200 (Valid (userId identity) (username identity) (role identity))
     \<and> answer_sheets_route secret t
          (db (fst (logout secret t1 srv1
             \<lparr>authorization = Some (bearer token), body = (), sessionID = sessionID req\<rparr>)))
          \<lparr>authorization = Some (bearer token), body = (), sessionID = sid\<rparr> =
        get_answer_sheets (db srv1) (Some identity)"
proof
  assume a: "login secret t0 srv req = (srv1, Response 200 (LoginSuccessful token identity mail)) \<and>
      t1 < t0 + 86400 \<and> t < t0 + 86400"
  then have l: "login secret t0 srv req =
      (srv1, Response 200 (LoginSuccessful token identity mail))"
    and lt: "t1 < t0 + 86400" "t < t0 + 86400"
    by simp_all
  note tok = login_token [OF l]
  have pass: "authenticateToken secret t'
        \<lparr>authorization = Some (bearer token), body = (), sessionID = s\<rparr> = Next (Some identity)"
    if "t' < t0 + 86400" for t' s
    using that
    by (simp add: tok authenticateToken_def split_sp_bearer bearer_nonempty jwt_verify_sign)
  have s: "sessions srv1 (sessionID req) \<noteq> None" by (simp add: login_session [OF l])
  have out: "logout secret t1 srv1
        \<lparr>authorization = Some (bearer token), body = (), sessionID = sessionID req\<rparr> =
      (srv1\<lparr>sessions := (sessions srv1)(sessionID req := None)\<rparr>,
       Response 200 (Message ''Logout successful''))"
    using logout_with_token [OF pass [OF lt(1), of "sessionID req"], of srv1] by simp
  have "middlewares GET (Auth ''verify'') = Some [AuthenticateToken]"
    by (simp add: middlewares_def routes_def)
  from guard_authenticated_only [OF this pass [OF lt(2), of sid]]
  have v: "verify secret t \<lparr>authorization = Some (bearer token), body = (), sessionID = sid\<rparr> =
      Response 200 (Valid (userId identity) (username identity) (role identity))"
    by (simp add: verify_def)
  have r: "answer_sheets_route secret t
          (db (fst (logout secret t1 srv1
             \<lparr>authorization = Some (bearer token), body = (), sessionID = sessionID req\<rparr>)))
          \<lparr>authorization = Some (bearer token), body = (), sessionID = sid\<rparr> =
        get_answer_sheets (db srv1) (Some identity)"
    by (simp add: out answer_sheets_route_authenticated [OF pass [OF lt(2), of sid]])
  have f: "db (fst (logout secret t1 srv1 req')) = db srv1" by (simp add: logout_frame)
  from s f out pass [OF lt(2), of sid] v r
  show "sessions srv1 (sessionID req) \<noteq> None
     \<and> db (fst (logout secret t1 srv1 req')) = db srv1
     \<and> logout secret t1 srv1
          \<lparr>authorization = Some (bearer token), body = (), sessionID = sessionID req\<rparr> =
        (srv1\<lparr>sessions := (sessions srv1)(sessionID req := None)\<rparr>,
         Response 200 (Message ''Logout successful''))
     \<and> authenticateToken secret t
          \<lparr>authorization = Some (bearer token), body = (), sessionID = sid\<rparr> =
        Next (Some identity)
     \<and> verify secret t \<lparr>authorization = Some (bearer token), body = (), sessionID = sid\<rparr> =
        Response 200 (Valid (userId identity) (username identity) (role identity))
     \<and> answer_sheets_route secret t
          (db (fst (logout secret t1 srv1
             \<lparr>authorization = Some (bearer token), body = (), sessionID = sessionID req\<rparr>)))
          \<lparr>authorization = Some (bearer token), body = (), sessionID = sid\<rparr> =
        get_answer_sheets (db srv1) (Some identity)"
    by simp
qed

theorem logout_leaves_token_valid_witness:
  "sessions
     (fst (logout ''cbse-jwt-secret-key'' 2000
        (fst (login ''cbse-jwt-secret-key'' 1000 \<lparr>db = sample_db, sessions = Map.empty\<rparr>
                \<lparr>authorization = None,
                 body = \<lparr>cred_username = Some ''admin'', cred_password = Some ''admin123''\<rparr>,
                 sessionID = ''s1''\<rparr>))
        \<lparr>authorization =
           Some (bearer (jwt_sign \<lparr>userId = 1, username = ''admin'', role = ''admin'',
                                   examinerId = None, schoolId = None\<rparr>
                           ''cbse-jwt-secret-key'' 1000)),
         body = (), sessionID = ''s1''\<rparr>)) ''s1'' = None
   \<and> verify ''cbse-jwt-secret-key'' 3000
       \<lparr>authorization =
          Some (bearer (jwt_sign \<lparr>userId = 1, username = ''admin'', role = ''admin'',
                                  examinerId = None, schoolId = None\<rparr>
                          ''cbse-jwt-secret-key'' 1000)),
        body = (), sessionID = ''s2''\<rparr> =
     Response 200 (Valid 1 ''admin'' ''admin'')"
proof -
  let ?identity = "\<lparr>userId = 1, username = ''admin'', role = ''admin'', examinerId = None,
                     schoolId = None\<rparr>"
  let ?token = "jwt_sign ?identity ''cbse-jwt-secret-key'' 1000"
  let ?srv = "\<lparr>db = sample_db, sessions = Map.empty\<rparr>"
  let ?req = "\<lparr>authorization = None,
                body = \<lparr>cred_username = Some ''admin'', cred_password = Some ''admin123''\<rparr>,
                sessionID = ''s1''\<rparr>"
  let ?srv1 = "fst (login ''cbse-jwt-secret-key'' 1000 ?srv ?req)"
  have "snd (login ''cbse-jwt-secret-key'' 1000 ?srv ?req) =
      Response 200 (LoginSuccessful ?token ?identity ''admin@cbse.edu.in'')"
    by (simp add: login_def getUserByUsername_def sample_db_def bcrypt_compare_hash Let_def)
  then have h: "login ''cbse-jwt-secret-key'' 1000 ?srv ?req =
        (?srv1, Response 200 (LoginSuccessful ?token ?identity ''admin@cbse.edu.in'')) \<and>
      (2000 :: int) < 1000 + 86400 \<and> (3000 :: int) < 1000 + 86400"
    by (simp add: prod_eq_iff)
  from logout_leaves_token_valid
    [of "''cbse-jwt-secret-key''" 1000 ?srv ?req ?srv1 ?token ?identity "''admin@cbse.edu.in''"
        2000 3000 "\<lparr>authorization = None, body = (), sessionID = ''s3''\<rparr>" "''s2''"] h
  have out: "logout ''cbse-jwt-secret-key'' 2000 ?srv1
        \<lparr>authorization = Some (bearer ?token), body = (), sessionID = sessionID ?req\<rparr> =
      (?srv1\<lparr>sessions := (sessions ?srv1)(sessionID ?req := None)\<rparr>,
       Response 200 (Message ''Logout successful''))"
    and v: "verify ''cbse-jwt-secret-key'' 3000
        \<lparr>authorization = Some (bearer ?token), body = (), sessionID = ''s2''\<rparr> =
      Response 200 (Valid (userId ?identity) (username ?identity) (role ?identity))"
    by blast+
  from out have "sessions (fst (logout ''cbse-jwt-secret-key'' 2000 ?srv1
        \<lparr>authorization = Some (bearer ?token), body = (), sessionID = ''s1''\<rparr>)) ''s1'' = None"
    by simp
  with v show ?thesis by simp
qed

section \<open>The examiner row of a registration\<close>

text \<open>
  A registration that names the role examiner and gives no examiner reference, when it is
  answered 201, has added one examiner row with a new id, the username as its name (what
  the columns hold of it), the school given (1 when none is) and the subject 1, and the new
  user refers to it.
\<close>

lemma register_examiner_linked:
  assumes "register d b = (d1, Response 201 c)" and "reg_role b = Some ''examiner''"
    and "\<not> truthy_int (reg_examinerId b)"
  shows "\<exists>e u n. reg_username b = Some n \<and> examiners d1 = examiners d @ [e] \<and>
           examiner_id e \<notin> set (map examiner_id (examiners d)) \<and>
           examiner_name e = take 255 n \<and>
           examiner_school_id e = (if truthy_int (reg_schoolId b) then reg_schoolId b else Some 1) \<and>
           examiner_subject_id e = Some 1 \<and>
           users d1 = users d @ [u] \<and> user_username u = take 50 n \<and>
           user_role u = ''examiner'' \<and> user_examiner_id u = Some (examiner_id e)"
proof -
  from register_success [OF assms(1)] assms(2,3)
  obtain n mail pw d0 u e where n: "reg_username b = Some n"
    and cu: "createUser d0
               \<lparr>ud_username = n, ud_email = mail, ud_password = pw,
                ud_role = (if truthy_string (reg_role b) then the (reg_role b) else ''examiner''),
                ud_examinerId = Some (examiner_id e), ud_schoolId = reg_schoolId b\<rparr> = (d1, Inr u)"
    and ae: "addExaminer d
               \<lparr>examinerName = Some n,
                ed_schoolId = (if truthy_int (reg_schoolId b) then reg_schoolId b else Some 1),
                ed_qualification = Some ''Not specified'', ed_subjectId = Some 1,
                contactNumber = None, ed_email = Some mail, experienceYears = Some 0\<rparr> =
             (d0, Inr e)"
    by auto
  note es = addExaminer_success [OF ae]
  note us = createUser_success [OF cu]
  from es(1) have e: "examiner_id e = examiners_seq d + 1" "examiner_name e = take 255 n"
      "examiner_school_id e = (if truthy_int (reg_schoolId b) then reg_schoolId b else Some 1)"
      "examiner_subject_id e = Some 1"
    by simp_all
  from us(1) assms(2) have u: "user_username u = take 50 n" "user_role u = ''examiner''"
      "user_examiner_id u = Some (examiner_id e)"
    by (simp_all add: truthy_string_def)
  from es(2) us(2) have "examiners d1 = examiners d @ [e]" "users d1 = users d @ [u]"
    by simp_all
  with e u n es(3) show ?thesis by auto
qed

text \<open>
  C10 at a registration that leaves the role out, on the store as start-up leaves it: it is
  answered 201, the user is stored with the role examiner and no examiner reference, and no
  examiner row is added.
\<close>

theorem register_default_role_no_examiner:
  "snd (register sample_db
          \<lparr>reg_username = Some ''t1'', reg_email = Some ''t1@x.com'',
           reg_password = Some ''secret1'', reg_role = None,
           reg_examinerId = None, reg_schoolId = None\<rparr>) =
     Response 201 (Registered 2 ''t1'' ''t1@x.com'' ''examiner'')
   \<and> users (fst (register sample_db
          \<lparr>reg_username = Some ''t1'', reg_email = Some ''t1@x.com'',
           reg_password = Some ''secret1'', reg_role = None,
           reg_examinerId = None, reg_schoolId = None\<rparr>)) =
     users sample_db @
       [\<lparr>user_id = 2, user_username = ''t1'', user_email = ''t1@x.com'',
         password_hash = bcrypt_hash ''secret1'', user_role = ''examiner'',
         user_examiner_id = None, user_school_id = None, is_active = True,
         last_login = None\<rparr>]
   \<and> examiners (fst (register sample_db
          \<lparr>reg_username = Some ''t1'', reg_email = Some ''t1@x.com'',
           reg_password = Some ''secret1'', reg_role = None,
           reg_examinerId = None, reg_schoolId = None\<rparr>)) =
     examiners sample_db"
  by (simp add: register_def getUserByUsername_def getUserByEmail_def sample_db_def
      createUser_def Let_def int4_def varchar_def references_def truthy_string_def
      truthy_int_def)


end
